theory Spec2Isabelle
  imports Complex_Main "HOL-Library.AList"
begin

section \<open>Data model\<close>

text \<open>
  The record set is a pandas DataFrame; it is modelled as the list of its rows, in row
  order. A cell of the \<^verbatim>\<open>value\<close> column holds either a float (\<open>Num\<close>) or a Python
  string (\<open>Str\<close>): the importer stores the string \<^verbatim>\<open>'Init'\<close> for an initialization line
  and the trailing text for a generic line. Floats are modelled as real numbers and
  timestamps as integers (nanoseconds since the epoch, as pandas stores them).

  The arithmetic of the model is exact. The code computes with doubles: \<^verbatim>\<open>float\<close> rounds
  the decimal of a measurement line, and the quotient and the product of a score and the
  sum and the quotient of a mean are each rounded, so a value of the code can differ from
  the model's in its last bits. No theorem below rests on a value where they differ: the
  examples of the claims have scores and means that doubles hold exactly.
\<close>

datatype cell = Num real | Str string

datatype py_error = KeyError string | TypeError | OverflowError

text \<open>A row of \<^verbatim>\<open>Importer.database\<close>; the columns of \<^verbatim>\<open>Importer.columns\<close>
  (\<open>dev_type\<close> is the column \<^verbatim>\<open>type\<close>, \<open>val\<close> the column \<^verbatim>\<open>value\<close>).\<close>

record reading =
  timestamp :: int
  level :: string
  dev_type :: string
  sensor_id :: "string option"
  val :: cell

text \<open>The row after \<^verbatim>\<open>_prepare_data\<close> has added the columns \<^verbatim>\<open>sensor_type\<close> and
  \<^verbatim>\<open>garden_ids\<close>; \<open>None\<close> is pandas' NaN.\<close>

record df_row = reading +
  sensor_type :: "string option"
  garden_ids :: "string list option"

text \<open>A row of \<^verbatim>\<open>expanded_df\<close>.\<close>

record zone_reading = df_row +
  garden_id :: string
  vegetable_type :: string
  location :: string

record garden =
  name :: string
  g_location :: string
  g_vegetable_type :: string
  active :: bool

record optimal_range =
  range_min :: real
  range_max :: real

record sensor =
  sensor_name :: string
  model :: string

record garden_config =
  gardens :: "string \<rightharpoonup> garden"
  vegetables :: "string \<rightharpoonup> (string \<rightharpoonup> optimal_range)"
  sensors :: "string \<rightharpoonup> sensor"
  sensor_garden_mapping :: "string \<rightharpoonup> string list"

record analyzer = garden_config +
  df :: "df_row list"
  expanded_df :: "zone_reading list"

section \<open>The analyzer: \<^verbatim>\<open>IrrigationAnalyzer\<close>\<close>

subsection \<open>\<^verbatim>\<open>_prepare_data\<close>\<close>

text \<open>Python's \<^verbatim>\<open>sub in s\<close> on strings.\<close>

fun starts_with :: "string \<Rightarrow> string \<Rightarrow> bool" where
  "starts_with [] s = True"
| "starts_with (p # ps) [] = False"
| "starts_with (p # ps) (c # cs) = (p = c \<and> starts_with ps cs)"

fun contains :: "string \<Rightarrow> string \<Rightarrow> bool" where
  "contains sub [] = (sub = [])"
| "contains sub (c # cs) = (starts_with sub (c # cs) \<or> contains sub cs)"

text \<open>The \<^verbatim>\<open>if\<close>/\<^verbatim>\<open>elif\<close> chain that fills \<^verbatim>\<open>sensor_type_map\<close>: a sensor whose
  name holds none of the five words gets no entry.\<close>

definition sensor_type_of :: "string \<Rightarrow> string option" where
  "sensor_type_of nm =
     (if contains ''Temperature'' nm then Some ''temperature''
      else if contains ''Moisture'' nm then Some ''moisture''
      else if contains ''Light'' nm then Some ''light''
      else if contains ''Humidity'' nm then Some ''humidity''
      else if contains ''Pump'' nm then Some ''pump''
      else None)"

definition sensor_type_map :: "(string \<rightharpoonup> sensor) \<Rightarrow> (string \<rightharpoonup> string)" where
  "sensor_type_map ss sid =
     (case ss sid of None \<Rightarrow> None | Some sensor_info \<Rightarrow> sensor_type_of (sensor_name sensor_info))"

text \<open>\<^verbatim>\<open>Series.map(d)\<close> with a dict: a cell that is \<^verbatim>\<open>None\<close> or no key of the
  dict becomes NaN.\<close>

definition series_map :: "('k \<rightharpoonup> 'v) \<Rightarrow> 'k option \<Rightarrow> 'v option" where
  "series_map d x = (case x of None \<Rightarrow> None | Some k \<Rightarrow> d k)"

text \<open>The two column assignments of \<^verbatim>\<open>_prepare_data\<close>, for a DataFrame that has no
  \<^verbatim>\<open>sensor_type\<close> column yet (the importer's has none).\<close>

definition add_columns :: "('a garden_config_scheme) \<Rightarrow> reading \<Rightarrow> df_row" where
  "add_columns cfg r =
     \<lparr>timestamp = timestamp r, level = level r, dev_type = dev_type r,
      sensor_id = sensor_id r, val = val r,
      sensor_type = series_map (sensor_type_map (sensors cfg)) (sensor_id r),
      garden_ids = series_map (sensor_garden_mapping cfg) (sensor_id r)\<rparr>"

text \<open>\<^verbatim>\<open>new_row = row.copy()\<close> and the three assignments to it.\<close>

definition new_row :: "df_row \<Rightarrow> string \<Rightarrow> garden \<Rightarrow> zone_reading" where
  "new_row row gid g =
     \<lparr>timestamp = timestamp row, level = level row, dev_type = dev_type row,
      sensor_id = sensor_id row, val = val row,
      sensor_type = sensor_type row, garden_ids = garden_ids row,
      garden_id = gid, vegetable_type = g_vegetable_type g, location = g_location g\<rparr>"

text \<open>The inner loop \<^verbatim>\<open>for garden_id in row['garden_ids']\<close>; \<^verbatim>\<open>self.gardens[garden_id]\<close>
  raises \<^verbatim>\<open>KeyError\<close> for a zone that is no key of \<^verbatim>\<open>gardens\<close>.\<close>

fun expand_row ::
  "(string \<rightharpoonup> garden) \<Rightarrow> df_row \<Rightarrow> string list \<Rightarrow> zone_reading list
     \<Rightarrow> py_error + zone_reading list" where
  "expand_row gs row [] expanded_rows = Inr expanded_rows"
| "expand_row gs row (gid # gids) expanded_rows =
     (case gs gid of
        None \<Rightarrow> Inl (KeyError gid)
      | Some g \<Rightarrow> expand_row gs row gids (expanded_rows @ [new_row row gid g]))"

text \<open>The outer loop \<^verbatim>\<open>for idx, row in self.df.iterrows()\<close>.\<close>

fun expand_rows ::
  "(string \<rightharpoonup> garden) \<Rightarrow> df_row list \<Rightarrow> zone_reading list \<Rightarrow> py_error + zone_reading list" where
  "expand_rows gs [] expanded_rows = Inr expanded_rows"
| "expand_rows gs (row # rows) expanded_rows =
     (case garden_ids row of
        None \<Rightarrow> expand_rows gs rows expanded_rows
      | Some gids \<Rightarrow>
          if length gids > 0 then
            (case expand_row gs row gids expanded_rows of
               Inl e \<Rightarrow> Inl e
             | Inr expanded_rows' \<Rightarrow> expand_rows gs rows expanded_rows')
          else expand_rows gs rows expanded_rows)"

text \<open>\<^verbatim>\<open>__init__\<close>: store the configuration and run \<^verbatim>\<open>_prepare_data\<close>. The rows whose
  value is \<^verbatim>\<open>'Init'\<close> are dropped from \<^verbatim>\<open>self.df\<close> before the expansion.\<close>

definition prepare_data :: "garden_config \<Rightarrow> reading list \<Rightarrow> py_error + analyzer" where
  "prepare_data cfg sampling_data_df =
     (let df1 = map (add_columns cfg) sampling_data_df;
          df2 = filter (\<lambda>row. val row \<noteq> Str ''Init'') df1
      in case expand_rows (gardens cfg) df2 [] of
           Inl e \<Rightarrow> Inl e
         | Inr expanded_rows \<Rightarrow>
             Inr \<lparr>gardens = gardens cfg, vegetables = vegetables cfg, sensors = sensors cfg,
                  sensor_garden_mapping = sensor_garden_mapping cfg,
                  df = df2, expanded_df = expanded_rows\<rparr>)"

subsection \<open>\<^verbatim>\<open>calculate_compliance_score\<close>\<close>

text \<open>An entry of the \<^verbatim>\<open>details\<close> dict. The entry of a kind without data has the keys
  \<^verbatim>\<open>status\<close> and \<^verbatim>\<open>avg_value\<close> only; a key that is absent, or whose value is \<^verbatim>\<open>None\<close>,
  is \<open>None\<close> here.\<close>

record detail =
  status :: string
  avg_value :: "real option"
  optimal_min :: "real option"
  optimal_max :: "real option"
  readings_count :: "nat option"
  in_range_count :: "nat option"

record compliance =
  c_garden_id :: string
  c_vegetable_type :: string
  overall_score :: real
  individual_scores :: "(string \<times> real option) list"
  details :: "(string \<times> detail) list"
  c_timestamp :: int

definition is_num :: "cell \<Rightarrow> bool" where
  "is_num c = (case c of Num x \<Rightarrow> True | Str s \<Rightarrow> False)"

definition num_of :: "cell \<Rightarrow> real" where
  "num_of c = (case c of Num x \<Rightarrow> x | Str s \<Rightarrow> 0)"

text \<open>\<^verbatim>\<open>np.mean\<close> and \<^verbatim>\<open>Series.mean\<close> of a sequence that is not empty.\<close>

definition mean :: "real list \<Rightarrow> real" where
  "mean xs = sum_list xs / real (length xs)"

definition status_of :: "real \<Rightarrow> string" where
  "status_of compliance_score =
     (if compliance_score \<ge> 80 then ''Good''
      else if compliance_score \<ge> 60 then ''Needs Attention'' else ''Poor'')"

definition no_data :: detail where
  "no_data = \<lparr>status = ''No data'', avg_value = None, optimal_min = None, optimal_max = None,
               readings_count = None, in_range_count = None\<rparr>"

text \<open>
  The body of the loop over the four sensor types. \<open>Inr None\<close> is the \<^verbatim>\<open>continue\<close> of a
  type that the crop's ranges do not have. The comparison
  \<^verbatim>\<open>sensor_data['value'] >= optimal_min\<close> compares every cell of the column with a
  number; Python raises \<^verbatim>\<open>TypeError\<close> when a cell is a string.
\<close>

definition score_kind ::
  "(string \<rightharpoonup> optimal_range) \<Rightarrow> zone_reading list \<Rightarrow> string
     \<Rightarrow> py_error + (real option \<times> detail) option" where
  "score_kind optimal_ranges recent_data sensor_type' =
     (case optimal_ranges sensor_type' of
        None \<Rightarrow> Inr None
      | Some rng \<Rightarrow>
          (let sensor_data = filter (\<lambda>z. sensor_type z = Some sensor_type') recent_data in
           if length sensor_data = 0 then Inr (Some (None, no_data))
           else if \<not> list_all (\<lambda>z. is_num (val z)) sensor_data then Inl TypeError
           else
             (let in_range = filter (\<lambda>z. num_of (val z) \<ge> range_min rng
                                          \<and> num_of (val z) \<le> range_max rng) sensor_data;
                  compliance_score = real (length in_range) / real (length sensor_data) * 100;
                  avg = mean (map (\<lambda>z. num_of (val z)) sensor_data)
              in Inr (Some (Some compliance_score,
                     \<lparr>status = status_of compliance_score, avg_value = Some avg,
                      optimal_min = Some (range_min rng), optimal_max = Some (range_max rng),
                      readings_count = Some (length sensor_data),
                      in_range_count = Some (length in_range)\<rparr>)))))"

text \<open>The loop; the two dicts keep their insertion order (\<open>AList.update\<close>).\<close>

fun score_loop ::
  "(string \<rightharpoonup> optimal_range) \<Rightarrow> zone_reading list \<Rightarrow> string list
     \<Rightarrow> (string \<times> real option) list \<times> (string \<times> detail) list
     \<Rightarrow> py_error + ((string \<times> real option) list \<times> (string \<times> detail) list)" where
  "score_loop optimal_ranges recent_data [] acc = Inr acc"
| "score_loop optimal_ranges recent_data (k # ks) (compliance_scores, dets) =
     (case score_kind optimal_ranges recent_data k of
        Inl e \<Rightarrow> Inl e
      | Inr None \<Rightarrow> score_loop optimal_ranges recent_data ks (compliance_scores, dets)
      | Inr (Some (sc, d)) \<Rightarrow>
          score_loop optimal_ranges recent_data ks
            (AList.update k sc compliance_scores, AList.update k d dets))"

definition sensor_types :: "string list" where
  "sensor_types = [''temperature'', ''moisture'', ''light'', ''humidity'']"

text \<open>\<^verbatim>\<open>timedelta(hours=time_window_hours)\<close> in nanoseconds.\<close>

definition timedelta_hours :: "int \<Rightarrow> int" where
  "timedelta_hours h = h * 3600000000000"

text \<open>
  \<^verbatim>\<open>datetime.min\<close> and \<^verbatim>\<open>datetime.max\<close>, 0001-01-01 00:00:00 and
  9999-12-31 23:59:59.999999, in nanoseconds since the epoch.
\<close>

definition datetime_min :: int where
  "datetime_min = - 62135596800000000000"

definition datetime_max :: int where
  "datetime_max = 253402300799999999000"

text \<open>
  \<^verbatim>\<open>datetime.now() - timedelta(hours=time_window_hours)\<close> raises \<^verbatim>\<open>OverflowError\<close> when
  the timedelta has more than 999999999 days, or when the difference lies outside of
  \<^verbatim>\<open>datetime.min\<close> to \<^verbatim>\<open>datetime.max\<close>.
\<close>

definition cutoff_overflows :: "int \<Rightarrow> int \<Rightarrow> bool" where
  "cutoff_overflows now h =
     (h div 24 < - 999999999 \<or> 999999999 < h div 24 \<or>
      now - timedelta_hours h < datetime_min \<or> datetime_max < now - timedelta_hours h)"

text \<open>
  \<open>now\<close> is the value of \<^verbatim>\<open>datetime.now()\<close>. \<^verbatim>\<open>pd.DataFrame(expanded_rows)\<close> of an
  empty list has no columns, so \<^verbatim>\<open>self.expanded_df['garden_id']\<close> raises \<^verbatim>\<open>KeyError\<close>
  when no row was expanded.
\<close>

definition calculate_compliance_score ::
  "analyzer \<Rightarrow> int \<Rightarrow> string \<Rightarrow> int \<Rightarrow> py_error + compliance" where
  "calculate_compliance_score a now gid time_window_hours =
     (case gardens a gid of
        None \<Rightarrow> Inl (KeyError gid)
      | Some g \<Rightarrow>
          (case vegetables a (g_vegetable_type g) of
             None \<Rightarrow> Inl (KeyError (g_vegetable_type g))
           | Some optimal_ranges \<Rightarrow>
               (let cutoff_time = now - timedelta_hours time_window_hours in
                if cutoff_overflows now time_window_hours then Inl OverflowError
                else if expanded_df a = [] then Inl (KeyError ''garden_id'')
                else
                  (let recent_data =
                         filter (\<lambda>z. garden_id z = gid \<and> timestamp z \<ge> cutoff_time)
                           (expanded_df a)
                   in case score_loop optimal_ranges recent_data sensor_types ([], []) of
                        Inl e \<Rightarrow> Inl e
                      | Inr (compliance_scores, dets) \<Rightarrow>
                          (let valid_scores = List.map_filter snd compliance_scores
                           in Inr \<lparr>c_garden_id = gid,
                                   c_vegetable_type = g_vegetable_type g,
                                   overall_score =
                                     (if valid_scores \<noteq> [] then mean valid_scores else 0),
                                   individual_scores = compliance_scores,
                                   details = dets,
                                   c_timestamp = now\<rparr>)))))"

text \<open>The default of the parameter \<^verbatim>\<open>time_window_hours\<close>.\<close>

definition default_window :: int where
  "default_window = 2400000"

subsection \<open>\<^verbatim>\<open>get_irrigation_recommendations\<close>\<close>

text \<open>The lines the function can append, one constructor for each f-string, with the
  values the f-string formats.\<close>

datatype recommendation =
    No_recent_data string
  | Increase_irrigation real real
  | Increase_humidity real real
  | Temperature_too_low real real
  | Reduce_irrigation real real
  | Improve_ventilation real real
  | Temperature_too_high real real
  | Within_optimal_range string real
  | All_parameters_optimal

text \<open>The body of the loop over \<^verbatim>\<open>compliance['details'].items()\<close>: the lines it appends
  for one entry. Reading \<^verbatim>\<open>details['optimal_min']\<close> raises \<^verbatim>\<open>KeyError\<close> when the key is
  absent.\<close>

definition recommend_kind :: "string \<Rightarrow> detail \<Rightarrow> py_error + recommendation list" where
  "recommend_kind sensor_type' d =
     (case avg_value d of
        None \<Rightarrow> Inr [No_recent_data sensor_type']
      | Some avg \<Rightarrow>
          (case optimal_min d of
             None \<Rightarrow> Inl (KeyError ''optimal_min'')
           | Some omin \<Rightarrow>
               (case optimal_max d of
                  None \<Rightarrow> Inl (KeyError ''optimal_max'')
                | Some omax \<Rightarrow>
                    if avg < omin then
                      (if sensor_type' = ''moisture'' then Inr [Increase_irrigation avg omin]
                       else if sensor_type' = ''humidity'' then Inr [Increase_humidity avg omin]
                       else if sensor_type' = ''temperature''
                         then Inr [Temperature_too_low avg omin]
                       else Inr [])
                    else if avg > omax then
                      (if sensor_type' = ''moisture'' then Inr [Reduce_irrigation avg omax]
                       else if sensor_type' = ''humidity''
                         then Inr [Improve_ventilation avg omax]
                       else if sensor_type' = ''temperature''
                         then Inr [Temperature_too_high avg omax]
                       else Inr [])
                    else Inr [Within_optimal_range sensor_type' avg])))"

fun recommend_loop ::
  "(string \<times> detail) list \<Rightarrow> recommendation list \<Rightarrow> py_error + recommendation list" where
  "recommend_loop [] recommendations = Inr recommendations"
| "recommend_loop ((k, d) # rest) recommendations =
     (case recommend_kind k d of
        Inl e \<Rightarrow> Inl e
      | Inr lines \<Rightarrow> recommend_loop rest (recommendations @ lines))"

definition get_irrigation_recommendations ::
  "analyzer \<Rightarrow> int \<Rightarrow> string \<Rightarrow> py_error + recommendation list" where
  "get_irrigation_recommendations a now gid =
     (case calculate_compliance_score a now gid default_window of
        Inl e \<Rightarrow> Inl e
      | Inr compliance \<Rightarrow>
          (case recommend_loop (details compliance) [] of
             Inl e \<Rightarrow> Inl e
           | Inr recommendations \<Rightarrow>
               Inr (if recommendations = [] then [All_parameters_optimal]
                    else recommendations)))"

section \<open>The importer: \<^verbatim>\<open>Importer\<close>\<close>

subsection \<open>Regular expressions\<close>

text \<open>
  The three patterns of \<^verbatim>\<open>import_data\<close> use literals, the classes \<^verbatim>\<open>\d\<close>, \<^verbatim>\<open>\w\<close>, \<^verbatim>\<open>\s\<close>
  and \<^verbatim>\<open>.\<close>, bracket sets, greedy repetition of a single class, optional groups and
  capture groups. A line is a \<open>string\<close>, and a \<open>char\<close> is a code point below 256; the
  classes are Python's classes of these code points.
\<close>

definition is_digit :: "char \<Rightarrow> bool" where
  "is_digit c = (48 \<le> (of_char c :: int) \<and> (of_char c :: int) \<le> 57)"

definition is_word :: "char \<Rightarrow> bool" where
  "is_word c =
     (let n = (of_char c :: int)
      in (48 \<le> n \<and> n \<le> 57) \<or> (65 \<le> n \<and> n \<le> 90) \<or> (97 \<le> n \<and> n \<le> 122) \<or> n = 95 \<or>
         n = 170 \<or> n = 178 \<or> n = 179 \<or> n = 181 \<or> n = 185 \<or> n = 186 \<or>
         (188 \<le> n \<and> n \<le> 190) \<or> (192 \<le> n \<and> n \<le> 214) \<or> (216 \<le> n \<and> n \<le> 246) \<or>
         (248 \<le> n \<and> n \<le> 255))"

text \<open>Python's white space below 256: tab to carriage return, the four separators
  \<^verbatim>\<open>\x1c\<close> to \<^verbatim>\<open>\x1f\<close>, the space, \<^verbatim>\<open>\x85\<close> and \<^verbatim>\<open>\xa0\<close>.\<close>

definition is_space :: "char \<Rightarrow> bool" where
  "is_space c =
     (let n = (of_char c :: int)
      in (9 \<le> n \<and> n \<le> 13) \<or> (28 \<le> n \<and> n \<le> 32) \<or> n = 133 \<or> n = 160)"

datatype atom = Ch char | Digit | Word | Space | Dot | Digit_or string

fun atom_ok :: "atom \<Rightarrow> char \<Rightarrow> bool" where
  "atom_ok (Ch c) x = (x = c)"
| "atom_ok Digit x = is_digit x"
| "atom_ok Word x = is_word x"
| "atom_ok Space x = is_space x"
| "atom_ok Dot x = (x \<noteq> CHR 0x0A)"
| "atom_ok (Digit_or cs) x = (is_digit x \<or> x \<in> set cs)"

datatype regex =
    Lit string
  | Plus atom
  | Star atom
  | Times nat atom
  | Opt regex
  | Group nat regex
  | Seq "regex list"

text \<open>A state of the matcher: the text still to read and the groups captured so far,
  the latest first.\<close>

type_synonym groups = "(nat \<times> string) list"
type_synonym mstate = "string \<times> groups"

text \<open>\<^verbatim>\<open>match.group(i)\<close>; \<open>None\<close> for a group that took no part in the match.\<close>

definition group :: "groups \<Rightarrow> nat \<Rightarrow> string option" where
  "group g i = map_of g i"

text \<open>The texts left after a greedy repetition of a class has read \<open>n\<close>, \<open>n - 1\<close>,
  ..., \<open>0\<close> characters: the order in which a backtracking matcher tries them.\<close>

fun greedy :: "(char \<Rightarrow> bool) \<Rightarrow> string \<Rightarrow> string list" where
  "greedy p [] = [[]]"
| "greedy p (x # xs) = (if p x then greedy p xs @ [x # xs] else [x # xs])"

text \<open>All the ways a pattern matches at the start of the text, in the order Python's
  backtracking matcher finds them.\<close>

fun matches :: "regex \<Rightarrow> mstate \<Rightarrow> mstate list"
  and matches_seq :: "regex list \<Rightarrow> mstate \<Rightarrow> mstate list" where
  "matches (Lit l) (s, c) = (if starts_with l s then [(drop (length l) s, c)] else [])"
| "matches (Plus a) (s, c) =
     (case s of [] \<Rightarrow> []
      | x # xs \<Rightarrow> if atom_ok a x then map (\<lambda>s'. (s', c)) (greedy (atom_ok a) xs) else [])"
| "matches (Star a) (s, c) = map (\<lambda>s'. (s', c)) (greedy (atom_ok a) s)"
| "matches (Times n a) (s, c) =
     (if n \<le> length s \<and> list_all (atom_ok a) (take n s) then [(drop n s, c)] else [])"
| "matches (Opt r) (s, c) = matches r (s, c) @ [(s, c)]"
| "matches (Group i r) (s, c) =
     map (\<lambda>(s', c'). (s', (i, take (length s - length s') s) # c')) (matches r (s, c))"
| "matches (Seq rs) (s, c) = matches_seq rs (s, c)"
| "matches_seq [] (s, c) = [(s, c)]"
| "matches_seq (r # rs) (s, c) = concat (map (matches_seq rs) (matches r (s, c)))"

text \<open>\<^verbatim>\<open>re.match(pattern, line)\<close>: the first match at the start of the line, as its
  groups, or \<open>None\<close>.\<close>

definition re_match :: "regex \<Rightarrow> string \<Rightarrow> groups option" where
  "re_match r line = (case matches r (line, []) of [] \<Rightarrow> None | (s, c) # ms \<Rightarrow> Some c)"

text \<open>The parts all three patterns share after the timestamp:
  \<^verbatim>\<open>\]\s+(\w+)\s+(\w+)\<close> and the optional \<^verbatim>\<open>(?:\[id=(\d+)\])?\<close>.\<close>

definition level_type :: "regex list" where
  "level_type = [Lit '']'', Plus Space, Group 2 (Plus Word), Plus Space, Group 3 (Plus Word)]"

definition id_group :: regex where
  "id_group = Opt (Seq [Lit ''[id='', Group 4 (Plus Digit), Lit '']''])"

text \<open>\<^verbatim>\<open>\[([\d-]+ [\d:.]+)\]\s+(\w+)\s+(\w+)(?:\[id=(\d+)\])?:?\s+Initialized sensor\<close>\<close>

definition init_pattern :: regex where
  "init_pattern =
     Seq (([Lit ''['', Group 1 (Seq [Plus (Digit_or ''-''), Lit '' '', Plus (Digit_or '':.'')])]
           @ level_type)
          @ id_group
          # [Opt (Lit '':''), Plus Space, Lit ''Initialized sensor''])"

text \<open>\<^verbatim>\<open>^\[([\d-]+ [\d:.]+)\]\s+(\w+)\s+(\w+)(?:\[id=(\d+)\])?:\s*\w+=(\d+(?:\.\d+)?)\<close>\<close>

definition data_pattern :: regex where
  "data_pattern =
     Seq (([Lit ''['', Group 1 (Seq [Plus (Digit_or ''-''), Lit '' '', Plus (Digit_or '':.'')])]
           @ level_type)
          @ id_group
          # [Lit '':'', Star Space, Plus Word, Lit ''='',
             Group 5 (Seq [Plus Digit, Opt (Seq [Lit ''.'', Plus Digit])])])"

text \<open>\<^verbatim>\<open>\[(\d{4}-\d{2}-\d{2} [\d:.]+)\]\s+(\w+)\s+(\w+)(?:\[id=(\d+)\])?:\s*(.+)\<close>\<close>

definition pump_pattern :: regex where
  "pump_pattern =
     Seq (([Lit ''['',
            Group 1 (Seq [Times 4 Digit, Lit ''-'', Times 2 Digit, Lit ''-'', Times 2 Digit,
                          Lit '' '', Plus (Digit_or '':.'')])]
           @ level_type)
          @ id_group
          # [Lit '':'', Star Space, Group 5 (Plus Dot)])"

subsection \<open>\<^verbatim>\<open>import_data\<close>\<close>

text \<open>\<^verbatim>\<open>float(match.group(5))\<close>: group 5 of the data pattern is a run of digits,
  or two runs with a point between them.\<close>

definition digit_val :: "char \<Rightarrow> int" where
  "digit_val c = of_char c - 48"

definition digits_val :: "string \<Rightarrow> int" where
  "digits_val ds = foldl (\<lambda>n c. 10 * n + digit_val c) 0 ds"

definition py_float :: "string \<Rightarrow> real" where
  "py_float s =
     (let ip = takeWhile (\<lambda>c. c \<noteq> CHR ''.'') s;
          fp = drop (Suc (length ip)) s
      in real_of_int (digits_val ip) + real_of_int (digits_val fp) / 10 ^ length fp)"

text \<open>\<^verbatim>\<open>line.strip()\<close>\<close>

definition strip :: "string \<Rightarrow> string" where
  "strip s = rev (dropWhile is_space (rev (dropWhile is_space s)))"

text \<open>
  What the body of the \<^verbatim>\<open>try\<close> does with one stripped line: it appends a row
  (\<open>Parsed\<close>), does nothing because no pattern matches (\<open>No_match\<close>), or raises inside
  \<^verbatim>\<open>pd.to_datetime\<close> (\<open>Raised\<close>). \<^verbatim>\<open>pd.to_datetime\<close> is pandas' parser; it is the
  parameter \<open>to_datetime\<close>, with \<open>None\<close> where it raises. A successful match always
  sets the groups 1, 2 and 3 (and 5 in the last two patterns), see
  \<open>init_pattern_groups\<close>, \<open>data_pattern_groups\<close> and \<open>pump_pattern_groups\<close> below,
  so \<open>the\<close> is applied to \<open>Some\<close> only.
\<close>

datatype parse_result = Parsed reading | No_match | Raised

definition parse_line :: "(string \<Rightarrow> int option) \<Rightarrow> string \<Rightarrow> parse_result" where
  "parse_line to_datetime line =
     (case re_match init_pattern line of
        Some g \<Rightarrow>
          (case to_datetime (the (group g 1)) of
             None \<Rightarrow> Raised
           | Some t \<Rightarrow>
               Parsed \<lparr>timestamp = t, level = the (group g 2), dev_type = the (group g 3),
                       sensor_id = group g 4, val = Str ''Init''\<rparr>)
      | None \<Rightarrow>
          (case re_match data_pattern line of
             Some g \<Rightarrow>
               (case to_datetime (the (group g 1)) of
                  None \<Rightarrow> Raised
                | Some t \<Rightarrow>
                    Parsed \<lparr>timestamp = t, level = the (group g 2), dev_type = the (group g 3),
                            sensor_id = group g 4, val = Num (py_float (the (group g 5)))\<rparr>)
           | None \<Rightarrow>
               (case re_match pump_pattern line of
                  Some g \<Rightarrow>
                    (case to_datetime (the (group g 1)) of
                       None \<Rightarrow> Raised
                     | Some t \<Rightarrow>
                         Parsed \<lparr>timestamp = t, level = the (group g 2), dev_type = the (group g 3),
                                 sensor_id = group g 4, val = Str (the (group g 5))\<rparr>)
                | None \<Rightarrow> No_match)))"

text \<open>The importer after \<^verbatim>\<open>import_data\<close>: the rows of \<^verbatim>\<open>database\<close>, and the
  lines that the \<^verbatim>\<open>except\<close> branch passed to \<^verbatim>\<open>logger.error\<close>.\<close>

record importer =
  database :: "reading list"
  logged :: "string list"

fun import_lines :: "(string \<Rightarrow> int option) \<Rightarrow> string list \<Rightarrow> importer \<Rightarrow> importer" where
  "import_lines to_datetime [] imp = imp"
| "import_lines to_datetime (raw # rest) imp =
     (let line = strip raw
      in case parse_line to_datetime line of
           Parsed r \<Rightarrow> import_lines to_datetime rest (imp\<lparr>database := database imp @ [r]\<rparr>)
         | No_match \<Rightarrow> import_lines to_datetime rest imp
         | Raised \<Rightarrow> import_lines to_datetime rest (imp\<lparr>logged := logged imp @ [line]\<rparr>))"

definition import_data :: "(string \<Rightarrow> int option) \<Rightarrow> string list \<Rightarrow> importer" where
  "import_data to_datetime lines =
     import_lines to_datetime lines \<lparr>database = [], logged = []\<rparr>"

section \<open>Notions used in the statements\<close>

subsection \<open>Scoring\<close>

text \<open>The rows of \<^verbatim>\<open>recent_data\<close>: the rows of the zone whose timestamp is not before
  the cutoff.\<close>

definition recent_rows :: "analyzer \<Rightarrow> int \<Rightarrow> string \<Rightarrow> int \<Rightarrow> zone_reading list" where
  "recent_rows a now gid h =
     filter (\<lambda>z. garden_id z = gid \<and> timestamp z \<ge> now - timedelta_hours h) (expanded_df a)"

definition kind_rows :: "zone_reading list \<Rightarrow> string \<Rightarrow> zone_reading list" where
  "kind_rows recent_data k = filter (\<lambda>z. sensor_type z = Some k) recent_data"

definition in_range_rows :: "optimal_range \<Rightarrow> zone_reading list \<Rightarrow> zone_reading list" where
  "in_range_rows rng rows =
     filter (\<lambda>z. range_min rng \<le> num_of (val z) \<and> num_of (val z) \<le> range_max rng) rows"

text \<open>The \<^verbatim>\<open>details\<close> entry of a kind that has the rows \<open>rows\<close>.\<close>

definition scored_detail :: "optimal_range \<Rightarrow> zone_reading list \<Rightarrow> detail" where
  "scored_detail rng rows =
     \<lparr>status = status_of (real (length (in_range_rows rng rows)) / real (length rows) * 100),
      avg_value = Some (mean (map (\<lambda>z. num_of (val z)) rows)),
      optimal_min = Some (range_min rng), optimal_max = Some (range_max rng),
      readings_count = Some (length rows),
      in_range_count = Some (length (in_range_rows rng rows))\<rparr>"

text \<open>What the loop body stores for a kind, if it stores anything.\<close>

definition score_entry ::
  "(string \<rightharpoonup> optimal_range) \<Rightarrow> zone_reading list \<Rightarrow> string
     \<Rightarrow> (real option \<times> detail) option" where
  "score_entry R D k = (case score_kind R D k of Inl e \<Rightarrow> None | Inr x \<Rightarrow> x)"

subsection \<open>Zone expansion\<close>

text \<open>The rows one row of \<^verbatim>\<open>self.df\<close> is expanded to when every zone is known.\<close>

definition row_zones :: "(string \<rightharpoonup> garden) \<Rightarrow> df_row \<Rightarrow> zone_reading list" where
  "row_zones gs row =
     (case garden_ids row of
        None \<Rightarrow> []
      | Some gids \<Rightarrow> map (\<lambda>gid. new_row row gid (the (gs gid))) gids)"

text \<open>
  Zone expansion in the spec's words, with the exclusion of initialization rows that the
  code adds: a reading whose value is \<^verbatim>\<open>'Init'\<close>, that carries no sensor ID or whose
  sensor is not mapped contributes nothing; any other reading contributes one row for
  each entry of its sensor's zone list, in the list's order, with that zone's crop type
  and location.
\<close>

definition zone_readings :: "garden_config \<Rightarrow> reading \<Rightarrow> zone_reading list" where
  "zone_readings cfg r =
     (if val r = Str ''Init'' then []
      else case sensor_id r of
             None \<Rightarrow> []
           | Some s \<Rightarrow>
               (case sensor_garden_mapping cfg s of
                  None \<Rightarrow> []
                | Some gids \<Rightarrow>
                    map (\<lambda>gid. new_row (add_columns cfg r) gid (the (gardens cfg gid))) gids))"

text \<open>The record sets on which the expansion looks up known zones only: every zone ID
  in the zone list of the sensor of a reading whose value is not \<^verbatim>\<open>'Init'\<close> is a key
  of \<^verbatim>\<open>gardens\<close>.\<close>

definition zones_known :: "garden_config \<Rightarrow> reading list \<Rightarrow> bool" where
  "zones_known cfg rows =
     list_all
       (\<lambda>r. val r = Str ''Init'' \<or>
            (case sensor_id r of
               None \<Rightarrow> True
             | Some s \<Rightarrow>
                 (case sensor_garden_mapping cfg s of
                    None \<Rightarrow> True
                  | Some gids \<Rightarrow> list_all (\<lambda>gid. gardens cfg gid \<noteq> None) gids)))
       rows"

subsection \<open>Ingestion\<close>

text \<open>The reading a raw line contributes to the record set, if any.\<close>

definition parsed_reading :: "(string \<Rightarrow> int option) \<Rightarrow> string \<Rightarrow> reading option" where
  "parsed_reading to_datetime raw =
     (case parse_line to_datetime (strip raw) of
        Parsed r \<Rightarrow> Some r | No_match \<Rightarrow> None | Raised \<Rightarrow> None)"

text \<open>A pattern that sets group \<open>i\<close> in every match.\<close>

fun sets_group :: "nat \<Rightarrow> regex \<Rightarrow> bool"
  and sets_group_seq :: "nat \<Rightarrow> regex list \<Rightarrow> bool" where
  "sets_group i (Lit l) = False"
| "sets_group i (Plus a) = False"
| "sets_group i (Star a) = False"
| "sets_group i (Times n a) = False"
| "sets_group i (Opt r) = False"
| "sets_group i (Group j r) = (i = j \<or> sets_group i r)"
| "sets_group i (Seq rs) = sets_group_seq i rs"
| "sets_group_seq i [] = False"
| "sets_group_seq i (r # rs) = (sets_group i r \<or> sets_group_seq i rs)"


section \<open>Example data\<close>

text \<open>
  \<^verbatim>\<open>pd.to_datetime\<close> on a timestamp written \<^verbatim>\<open>YYYY-MM-DD HH:MM:SS[.f...]\<close> (at most nine
  digits of fraction, years 1678 to 2261), as nanoseconds since 1970-01-01. It stands
  for the parameter \<open>to_datetime\<close> in the examples, which use timestamps of this form
  only; on any other text it answers \<open>None\<close>.
\<close>

definition iso_pattern :: regex where
  "iso_pattern =
     Seq [Group 1 (Times 4 Digit), Lit ''-'', Group 2 (Times 2 Digit), Lit ''-'',
          Group 3 (Times 2 Digit), Lit '' '', Group 4 (Times 2 Digit), Lit '':'',
          Group 5 (Times 2 Digit), Lit '':'', Group 6 (Times 2 Digit),
          Opt (Seq [Lit ''.'', Group 7 (Plus Digit)])]"

definition days_in_month :: "int \<Rightarrow> int \<Rightarrow> int" where
  "days_in_month y m =
     (if m = 2 then
        (if y mod 400 = 0 then 29 else if y mod 100 = 0 then 28
         else if y mod 4 = 0 then 29 else 28)
      else if m = 4 \<or> m = 6 \<or> m = 9 \<or> m = 11 then 30 else 31)"

definition days_from_civil :: "int \<Rightarrow> int \<Rightarrow> int \<Rightarrow> int" where
  "days_from_civil y m d =
     (let y' = (if m \<le> 2 then y - 1 else y);
          era = y' div 400;
          yoe = y' - era * 400;
          doy = (153 * (if m > 2 then m - 3 else m + 9) + 2) div 5 + d - 1;
          doe = yoe * 365 + yoe div 4 - yoe div 100 + doy
      in era * 146097 + doe - 719468)"

definition group_digits :: "groups \<Rightarrow> nat \<Rightarrow> int" where
  "group_digits g i = (case group g i of None \<Rightarrow> 0 | Some ds \<Rightarrow> digits_val ds)"

definition to_datetime_iso :: "string \<Rightarrow> int option" where
  "to_datetime_iso s =
     (case find (\<lambda>(rest, g). rest = []) (matches iso_pattern (s, [])) of
        None \<Rightarrow> None
      | Some (rest, g) \<Rightarrow>
          (let y = group_digits g 1; mo = group_digits g 2; d = group_digits g 3;
               h = group_digits g 4; mi = group_digits g 5; sec = group_digits g 6;
               frac = (case group g 7 of None \<Rightarrow> [] | Some f \<Rightarrow> f)
           in if 1678 \<le> y \<and> y \<le> 2261 \<and> 1 \<le> mo \<and> mo \<le> 12 \<and> 1 \<le> d
                 \<and> d \<le> days_in_month y mo \<and> h < 24 \<and> mi < 60 \<and> sec < 60 \<and> length frac \<le> 9
              then Some ((((days_from_civil y mo d * 24 + h) * 60 + mi) * 60 + sec) * 1000000000
                         + digits_val (take 9 (frac @ ''000000000'')))
              else None))"

text \<open>A configuration: two zones, a sensor that serves both, and a crop whose profile
  has a range for light only.\<close>

definition example_config :: garden_config where
  "example_config =
     \<lparr>gardens =
        [''Z1'' \<mapsto> \<lparr>name = ''Tomato bed'', g_location = ''North'',
                      g_vegetable_type = ''tomato'', active = True\<rparr>,
         ''Z2'' \<mapsto> \<lparr>name = ''Lettuce bed'', g_location = ''South'',
                      g_vegetable_type = ''lettuce'', active = True\<rparr>],
      vegetables =
        [''tomato'' \<mapsto> [''temperature'' \<mapsto> \<lparr>range_min = 18, range_max = 27\<rparr>,
                         ''moisture'' \<mapsto> \<lparr>range_min = 40, range_max = 70\<rparr>],
         ''lettuce'' \<mapsto> [''light'' \<mapsto> \<lparr>range_min = 200, range_max = 800\<rparr>]],
      sensors =
        [''1001'' \<mapsto> \<lparr>sensor_name = ''Temperature_Sensor_1'', model = ''TempPro''\<rparr>,
         ''2001'' \<mapsto> \<lparr>sensor_name = ''Soil_Moisture_1'', model = ''SoilSense''\<rparr>,
         ''2002'' \<mapsto> \<lparr>sensor_name = ''Pump_Controller_1'', model = ''PumpCtrl''\<rparr>,
         ''3001'' \<mapsto> \<lparr>sensor_name = ''Light_Sensor_1'', model = ''LuxPro''\<rparr>],
      sensor_garden_mapping =
        [''1001'' \<mapsto> [''Z1''], ''2001'' \<mapsto> [''Z1'', ''Z2''], ''2002'' \<mapsto> [''Z1''],
         ''3001'' \<mapsto> [''Z2'']]\<rparr>"

text \<open>The same configuration, with sensor 1001 mapped to a zone that \<^verbatim>\<open>gardens\<close> does
  not have.\<close>

definition dangling_config :: garden_config where
  "dangling_config = example_config\<lparr>sensor_garden_mapping := [''1001'' \<mapsto> [''Z9'']]\<rparr>"

text \<open>2025-01-15 12:00:00, as the value of \<^verbatim>\<open>datetime.now()\<close>.\<close>

definition noon :: int where
  "noon = 1736942400000000000"

text \<open>A log: the lines of the importer's test, with a second moisture line.\<close>

definition example_log :: "string list" where
  "example_log =
     [''[2025-01-15 10:30:00] INFO TempSensor[id=1001]: Initialized sensor'',
      ''[2025-01-15 10:30:15] INFO TempSensor[id=1001]: temperature=23.5'',
      ''[2025-01-15 10:30:45] WARNING SoilSensor[id=2001]: moisture=50'',
      ''[2025-01-15 10:31:00] ERROR PumpCtrl[id=2002]: Pump failure on init'',
      ''[2025-01-15 10:31:15] INFO TempSensor: temperature=24.1'',
      ''Invalid log line that should be ignored'',
      ''[2025-01-15 10:45:45] WARNING SoilSensor[id=2001]: moisture=80'']"

definition example_rows :: "reading list" where
  "example_rows = database (import_data to_datetime_iso example_log)"

text \<open>The readings of the log, line by line; the sixth line has none.\<close>

definition init_reading :: reading where
  "init_reading =
     \<lparr>timestamp = 1736937000000000000, level = ''INFO'', dev_type = ''TempSensor'',
      sensor_id = Some ''1001'', val = Str ''Init''\<rparr>"

definition temp_reading :: reading where
  "temp_reading =
     \<lparr>timestamp = 1736937015000000000, level = ''INFO'', dev_type = ''TempSensor'',
      sensor_id = Some ''1001'', val = Num 23.5\<rparr>"

definition soil_reading :: "int \<Rightarrow> real \<Rightarrow> reading" where
  "soil_reading t v =
     \<lparr>timestamp = t, level = ''WARNING'', dev_type = ''SoilSensor'',
      sensor_id = Some ''2001'', val = Num v\<rparr>"

definition pump_reading :: reading where
  "pump_reading =
     \<lparr>timestamp = 1736937060000000000, level = ''ERROR'', dev_type = ''PumpCtrl'',
      sensor_id = Some ''2002'', val = Str ''Pump failure on init''\<rparr>"

definition anonymous_reading :: reading where
  "anonymous_reading =
     \<lparr>timestamp = 1736937075000000000, level = ''INFO'', dev_type = ''TempSensor'',
      sensor_id = None, val = Num 24.1\<rparr>"

definition example_readings :: "reading list" where
  "example_readings =
     [init_reading, temp_reading, soil_reading 1736937045000000000 50, pump_reading,
      anonymous_reading, soil_reading 1736937945000000000 80]"

definition example_analyzer :: analyzer where
  "example_analyzer = projr (prepare_data example_config example_readings)"

text \<open>An analyzer whose moisture readings of zone Z1 lie on the two bounds of the
  range, 40 and 70, and twice outside of it.\<close>

definition boundary_analyzer :: analyzer where
  "boundary_analyzer =
     projr (prepare_data example_config
       [soil_reading 1736937045000000000 40, soil_reading 1736937045000000000 70,
        soil_reading 1736937045000000000 80, soil_reading 1736937045000000000 90])"

text \<open>The whole run of \<^verbatim>\<open>main.py\<close> up to the score of one zone: import the lines,
  build the analyzer, score.\<close>

definition score_of_log ::
  "garden_config \<Rightarrow> string list \<Rightarrow> int \<Rightarrow> string \<Rightarrow> int \<Rightarrow> py_error + compliance" where
  "score_of_log cfg lines now gid h =
     (case prepare_data cfg (database (import_data to_datetime_iso lines)) of
        Inl e \<Rightarrow> Inl e
      | Inr a \<Rightarrow> calculate_compliance_score a now gid h)"

definition recommendations_of_log ::
  "garden_config \<Rightarrow> string list \<Rightarrow> int \<Rightarrow> string \<Rightarrow> py_error + recommendation list" where
  "recommendations_of_log cfg lines now gid =
     (case prepare_data cfg (database (import_data to_datetime_iso lines)) of
        Inl e \<Rightarrow> Inl e
      | Inr a \<Rightarrow> get_irrigation_recommendations a now gid)"

text \<open>A log with a temperature below zero: the data pattern wants a digit after
  \<^verbatim>\<open>=\<close>, so the third line is read by the generic pattern, as text.\<close>

definition frost_log :: "string list" where
  "frost_log =
     [''[2025-01-15 10:30:00] INFO TempSensor[id=1001]: Initialized sensor'',
      ''[2025-01-15 10:30:15] INFO TempSensor[id=1001]: temperature=23.5'',
      ''[2025-01-15 10:31:00] INFO TempSensor[id=1001]: temperature=-3.5'']"

definition frost_analyzer :: analyzer where
  "frost_analyzer =
     projr (prepare_data example_config (database (import_data to_datetime_iso frost_log)))"


definition junk_line :: string where
  "junk_line = ''Invalid log line that should be ignored''"

definition temp_line :: string where
  "temp_line = ''[2025-01-15 10:30:15] INFO TempSensor[id=1001]: temperature=23.5''"

definition soil_line :: string where
  "soil_line = ''[2025-01-15 10:30:45] WARNING SoilSensor[id=2001]: moisture=50''"

text \<open>A log with one light reading of 100, below the range of lettuce.\<close>

definition dim_log :: "string list" where
  "dim_log = [''[2025-01-15 10:30:00] INFO LightSensor[id=3001]: light=100'']"

text \<open>The log of the spec's example: one initialization line.\<close>

definition init_log :: "string list" where
  "init_log = [''[2025-01-15 10:30:00] INFO TempSensor[id=1001]: Initialized sensor'']"

section \<open>Zone expansion\<close>

lemma expand_row_ok:
  "\<forall>gid\<in>set gids. gs gid \<noteq> None \<Longrightarrow>
   expand_row gs row gids acc = Inr (acc @ map (\<lambda>gid. new_row row gid (the (gs gid))) gids)"
  by (induction gids arbitrary: acc) auto

lemma expand_row_KeyError:
  "gid \<in> set gids \<Longrightarrow> gs gid = None \<Longrightarrow>
   \<exists>k. expand_row gs row gids acc = Inl (KeyError k) \<and> gs k = None"
  by (induction gids arbitrary: acc) (auto split: option.splits)

lemma expand_row_cases:
  "(\<exists>k. expand_row gs row gids acc = Inl (KeyError k) \<and> gs k = None) \<or>
   (\<exists>rows. expand_row gs row gids acc = Inr rows)"
  by (induction gids arbitrary: acc) (auto split: option.splits)

lemma expand_rows_ok:
  "\<forall>row\<in>set rows. \<forall>gids. garden_ids row = Some gids \<longrightarrow> (\<forall>gid\<in>set gids. gs gid \<noteq> None) \<Longrightarrow>
   expand_rows gs rows acc = Inr (acc @ concat (map (row_zones gs) rows))"
proof (induction rows arbitrary: acc)
  case Nil
  then show ?case by simp
next
  case (Cons row rows)
  show ?case
  proof (cases "garden_ids row")
    case None
    with Cons show ?thesis by (simp add: row_zones_def)
  next
    case (Some gids)
    with Cons.prems have ok: "\<forall>gid\<in>set gids. gs gid \<noteq> None" by simp
    from Cons have IH: "\<And>acc. expand_rows gs rows acc = Inr (acc @ concat (map (row_zones gs) rows))"
      by simp
    have rz: "row_zones gs row = map (\<lambda>gid. new_row row gid (the (gs gid))) gids"
      by (simp add: row_zones_def Some)
    show ?thesis using Some expand_row_ok [OF ok, of row acc] IH rz
      by (cases "gids = []") simp_all
  qed
qed

lemma expand_rows_KeyError:
  "row \<in> set rows \<Longrightarrow> garden_ids row = Some gids \<Longrightarrow> gid \<in> set gids \<Longrightarrow> gs gid = None \<Longrightarrow>
   \<exists>k. expand_rows gs rows acc = Inl (KeyError k) \<and> gs k = None"
proof (induction rows arbitrary: acc)
  case Nil
  then show ?case by simp
next
  case (Cons r rows)
  show ?case
  proof (cases "garden_ids r")
    case None
    with Cons show ?thesis by auto
  next
    case (Some gs')
    show ?thesis
    proof (cases "gs' = []")
      case True
      with Some Cons show ?thesis by auto
    next
      case False
      from expand_row_cases [of gs r gs' acc] show ?thesis
      proof
        assume "\<exists>k. expand_row gs r gs' acc = Inl (KeyError k) \<and> gs k = None"
        with Some False show ?thesis by auto
      next
        assume "\<exists>rows. expand_row gs r gs' acc = Inr rows"
        then obtain acc' where acc': "expand_row gs r gs' acc = Inr acc'" by blast
        have "row \<noteq> r"
        proof
          assume "row = r"
          with Cons.prems Some have "gid \<in> set gs'" by simp
          from expand_row_KeyError [of gid gs' gs r acc] this Cons.prems(4) acc' show False by simp
        qed
        with Cons.prems have "row \<in> set rows" by simp
        from Cons.IH [OF this Cons.prems(2,3,4), of acc'] Some False acc'
        show ?thesis by simp
      qed
    qed
  qed
qed

lemma zone_readings_row_zones:
  "(if val r \<noteq> Str ''Init'' then row_zones (gardens cfg) (add_columns cfg r) else []) =
   zone_readings cfg r"
  by (simp add: zone_readings_def row_zones_def add_columns_def series_map_def
           split: option.splits)

lemma expanded_filter_concat:
  "concat (map (row_zones (gardens cfg))
     (filter (\<lambda>row. val row \<noteq> Str ''Init'') (map (add_columns cfg) rows))) =
   concat (map (zone_readings cfg) rows)"
proof (induction rows)
  case Nil
  show ?case by simp
next
  case (Cons r rows)
  have v: "val (add_columns cfg r) = val r" by (simp add: add_columns_def)
  from Cons zone_readings_row_zones [of r cfg] show ?case
    by (cases "val r = Str ''Init''") (simp_all add: v)
qed

lemma example_zone_readings: "concat (map (zone_readings example_config)
             [init_reading, soil_reading 1736937045000000000 50]) =
           [new_row (add_columns example_config (soil_reading 1736937045000000000 50)) ''Z1''
              (the (gardens example_config ''Z1'')),
            new_row (add_columns example_config (soil_reading 1736937045000000000 50)) ''Z2''
              (the (gardens example_config ''Z2''))]"
    by (simp add: zone_readings_def init_reading_def soil_reading_def example_config_def)

lemma zone_expansion_known:
  assumes wf: "\<forall>r\<in>set rows. val r \<noteq> Str ''Init'' \<longrightarrow>
                 (\<forall>s gids. sensor_id r = Some s \<longrightarrow> sensor_garden_mapping cfg s = Some gids
                    \<longrightarrow> (\<forall>gid\<in>set gids. gardens cfg gid \<noteq> None))"
  shows "(\<exists>a. prepare_data cfg rows = Inr a \<and>
              expanded_df a = concat (map (zone_readings cfg) rows)) \<and>
         (\<forall>r\<in>set rows. \<forall>s gids.
            val r \<noteq> Str ''Init'' \<longrightarrow> sensor_id r = Some s \<longrightarrow>
            sensor_garden_mapping cfg s = Some gids \<longrightarrow>
              length (zone_readings cfg r) = length gids \<and>
              map garden_id (zone_readings cfg r) = gids \<and>
              (\<forall>z\<in>set (zone_readings cfg r).
                 \<exists>g. gardens cfg (garden_id z) = Some g \<and>
                     vegetable_type z = g_vegetable_type g \<and> location z = g_location g \<and>
                     timestamp z = timestamp r \<and> sensor_id z = sensor_id r \<and> val z = val r)) \<and>
         (\<forall>r\<in>set rows.
            val r = Str ''Init'' \<or> sensor_id r = None \<or>
            (\<exists>s. sensor_id r = Some s \<and>
                 (sensor_garden_mapping cfg s = None \<or> sensor_garden_mapping cfg s = Some []))
            \<longrightarrow> zone_readings cfg r = [])"
proof (intro conjI)
  let ?df2 = "filter (\<lambda>row. val row \<noteq> Str ''Init'') (map (add_columns cfg) rows)"
  have "\<forall>row\<in>set ?df2. \<forall>gids. garden_ids row = Some gids \<longrightarrow>
          (\<forall>gid\<in>set gids. gardens cfg gid \<noteq> None)"
  proof (intro ballI allI impI)
    fix row gids gid
    assume row: "row \<in> set ?df2" and g: "garden_ids row = Some gids" and gid: "gid \<in> set gids"
    from row obtain r where r: "r \<in> set rows" "row = add_columns cfg r" "val r \<noteq> Str ''Init''"
      by (auto simp: add_columns_def)
    from g r(2) obtain s where "sensor_id r = Some s" "sensor_garden_mapping cfg s = Some gids"
      by (auto simp: add_columns_def series_map_def split: option.splits)
    with wf r(1,3) gid show "gardens cfg gid \<noteq> None" by blast
  qed
  from expand_rows_ok [OF this, of "[]"]
  have "expand_rows (gardens cfg) ?df2 [] = Inr (concat (map (zone_readings cfg) rows))"
    by (simp add: expanded_filter_concat)
  then show "\<exists>a. prepare_data cfg rows = Inr a \<and>
              expanded_df a = concat (map (zone_readings cfg) rows)"
    by (simp add: prepare_data_def)
next
  show "\<forall>r\<in>set rows. \<forall>s gids.
            val r \<noteq> Str ''Init'' \<longrightarrow> sensor_id r = Some s \<longrightarrow>
            sensor_garden_mapping cfg s = Some gids \<longrightarrow>
              length (zone_readings cfg r) = length gids \<and>
              map garden_id (zone_readings cfg r) = gids \<and>
              (\<forall>z\<in>set (zone_readings cfg r).
                 \<exists>g. gardens cfg (garden_id z) = Some g \<and>
                     vegetable_type z = g_vegetable_type g \<and> location z = g_location g \<and>
                     timestamp z = timestamp r \<and> sensor_id z = sensor_id r \<and> val z = val r)"
  proof (intro ballI allI impI)
    fix r s gids
    assume r: "r \<in> set rows" "val r \<noteq> Str ''Init''" "sensor_id r = Some s"
      "sensor_garden_mapping cfg s = Some gids"
    with wf have ok: "\<forall>gid\<in>set gids. gardens cfg gid \<noteq> None" by blast
    from r have zr: "zone_readings cfg r =
        map (\<lambda>gid. new_row (add_columns cfg r) gid (the (gardens cfg gid))) gids"
      by (simp add: zone_readings_def)
    have gi: "\<And>row gid g. garden_id (new_row row gid g) = gid" by (simp add: new_row_def)
    show "length (zone_readings cfg r) = length gids \<and>
          map garden_id (zone_readings cfg r) = gids \<and>
          (\<forall>z\<in>set (zone_readings cfg r).
             \<exists>g. gardens cfg (garden_id z) = Some g \<and>
                 vegetable_type z = g_vegetable_type g \<and> location z = g_location g \<and>
                 timestamp z = timestamp r \<and> sensor_id z = sensor_id r \<and> val z = val r)"
      using ok unfolding zr
      by (auto simp: new_row_def add_columns_def comp_def)
  qed
next
  show "\<forall>r\<in>set rows.
            val r = Str ''Init'' \<or> sensor_id r = None \<or>
            (\<exists>s. sensor_id r = Some s \<and>
                 (sensor_garden_mapping cfg s = None \<or> sensor_garden_mapping cfg s = Some []))
            \<longrightarrow> zone_readings cfg r = []"
    by (auto simp: zone_readings_def)
qed


lemma zones_known_iff:
  "zones_known cfg rows \<longleftrightarrow>
   (\<forall>r\<in>set rows. val r \<noteq> Str ''Init'' \<longrightarrow>
      (\<forall>s gids. sensor_id r = Some s \<longrightarrow> sensor_garden_mapping cfg s = Some gids
         \<longrightarrow> (\<forall>gid\<in>set gids. gardens cfg gid \<noteq> None)))"
  by (auto simp: zones_known_def list_all_iff split: option.splits)

lemma prepare_data_unknown_zone:
  assumes "r \<in> set rows" and "val r \<noteq> Str ''Init''" and "sensor_id r = Some s"
    and "sensor_garden_mapping cfg s = Some gids" and "gid \<in> set gids"
    and "gardens cfg gid = None"
  shows "\<exists>k. prepare_data cfg rows = Inl (KeyError k)"
proof -
  let ?df2 = "filter (\<lambda>row. val row \<noteq> Str ''Init'') (map (add_columns cfg) rows)"
  from assms(1,2) have "add_columns cfg r \<in> set ?df2" by (auto simp: add_columns_def)
  moreover from assms(3,4) have "garden_ids (add_columns cfg r) = Some gids"
    by (simp add: add_columns_def series_map_def)
  ultimately obtain k where "expand_rows (gardens cfg) ?df2 [] = Inl (KeyError k)"
    using expand_rows_KeyError [of "add_columns cfg r" ?df2 gids gid "gardens cfg" "[]"] assms(5,6)
    by blast
  then show ?thesis by (auto simp: prepare_data_def)
qed

lemma prepare_data_Inr_known:
  assumes "prepare_data cfg rows = Inr a"
  shows "zones_known cfg rows"
proof (rule ccontr)
  assume "\<not> zones_known cfg rows"
  then obtain r s gids gid where "r \<in> set rows" "val r \<noteq> Str ''Init''" "sensor_id r = Some s"
    "sensor_garden_mapping cfg s = Some gids" "gid \<in> set gids" "gardens cfg gid = None"
    unfolding zones_known_iff by blast
  from prepare_data_unknown_zone [OF this] assms show False by auto
qed

text \<open>
  C5 (amended). Zone expansion returns the expanded record set exactly when every zone
  ID in the zone list of the sensor of every reading of the record set whose value is
  not the \<^verbatim>\<open>'Init'\<close> marker is a key of \<^verbatim>\<open>gardens\<close>; otherwise the whole expansion aborts
  (C10) and no reading has any row. Whenever it returns: every reading whose value is not
  \<^verbatim>\<open>'Init'\<close> and whose sensor is mapped to a list of \<open>N\<close> zone IDs contributes exactly \<open>N\<close>
  rows, one for each entry of the list and in its order, each with that zone's crop type
  and location and with the reading's own columns; a reading whose value is \<^verbatim>\<open>'Init'\<close>,
  that carries no sensor ID, or whose sensor is not mapped or mapped to the empty list,
  contributes no row; and the expanded record set is the concatenation of these
  contributions in the order of the readings.
\<close>

theorem zone_expansion_per_reading:
  "(zones_known cfg rows \<longleftrightarrow> (\<exists>a. prepare_data cfg rows = Inr a)) \<and>
   (\<forall>a. prepare_data cfg rows = Inr a \<longrightarrow>
      expanded_df a = concat (map (zone_readings cfg) rows) \<and>
      (\<forall>r\<in>set rows. \<forall>s gids.
         val r \<noteq> Str ''Init'' \<longrightarrow> sensor_id r = Some s \<longrightarrow>
         sensor_garden_mapping cfg s = Some gids \<longrightarrow>
           length (zone_readings cfg r) = length gids \<and>
           map garden_id (zone_readings cfg r) = gids \<and>
           (\<forall>z\<in>set (zone_readings cfg r).
              \<exists>g. gardens cfg (garden_id z) = Some g \<and>
                  vegetable_type z = g_vegetable_type g \<and> location z = g_location g \<and>
                  timestamp z = timestamp r \<and> sensor_id z = sensor_id r \<and> val z = val r)) \<and>
      (\<forall>r\<in>set rows.
         val r = Str ''Init'' \<or> sensor_id r = None \<or>
         (\<exists>s. sensor_id r = Some s \<and>
              (sensor_garden_mapping cfg s = None \<or> sensor_garden_mapping cfg s = Some []))
         \<longrightarrow> zone_readings cfg r = []))"
proof (intro conjI allI impI iffI)
  assume "zones_known cfg rows"
  then have wf: "\<forall>r\<in>set rows. val r \<noteq> Str ''Init'' \<longrightarrow>
      (\<forall>s gids. sensor_id r = Some s \<longrightarrow> sensor_garden_mapping cfg s = Some gids
         \<longrightarrow> (\<forall>gid\<in>set gids. gardens cfg gid \<noteq> None))"
    unfolding zones_known_iff .
  from zone_expansion_known [OF wf, THEN conjunct1]
  show "\<exists>a. prepare_data cfg rows = Inr a" by (elim exE conjE) (rule exI)
next
  assume "\<exists>a. prepare_data cfg rows = Inr a"
  then show "zones_known cfg rows" by (elim exE) (rule prepare_data_Inr_known)
next
  fix a
  assume a: "prepare_data cfg rows = Inr a"
  from prepare_data_Inr_known [OF a]
  have wf: "\<forall>r\<in>set rows. val r \<noteq> Str ''Init'' \<longrightarrow>
      (\<forall>s gids. sensor_id r = Some s \<longrightarrow> sensor_garden_mapping cfg s = Some gids
         \<longrightarrow> (\<forall>gid\<in>set gids. gardens cfg gid \<noteq> None))"
    unfolding zones_known_iff .
  note k = zone_expansion_known [OF wf]
  from k [THEN conjunct1] a
  show "expanded_df a = concat (map (zone_readings cfg) rows)" by (elim exE conjE) simp
  from k [THEN conjunct2, THEN conjunct1]
  show "\<forall>r\<in>set rows. \<forall>s gids.
         val r \<noteq> Str ''Init'' \<longrightarrow> sensor_id r = Some s \<longrightarrow>
         sensor_garden_mapping cfg s = Some gids \<longrightarrow>
           length (zone_readings cfg r) = length gids \<and>
           map garden_id (zone_readings cfg r) = gids \<and>
           (\<forall>z\<in>set (zone_readings cfg r).
              \<exists>g. gardens cfg (garden_id z) = Some g \<and>
                  vegetable_type z = g_vegetable_type g \<and> location z = g_location g \<and>
                  timestamp z = timestamp r \<and> sensor_id z = sensor_id r \<and> val z = val r)" .
  from k [THEN conjunct2, THEN conjunct2]
  show "\<forall>r\<in>set rows.
         val r = Str ''Init'' \<or> sensor_id r = None \<or>
         (\<exists>s. sensor_id r = Some s \<and>
              (sensor_garden_mapping cfg s = None \<or> sensor_garden_mapping cfg s = Some []))
         \<longrightarrow> zone_readings cfg r = []" .
qed

theorem zone_expansion_per_reading_witness:
  "zones_known example_config [init_reading, soil_reading 1736937045000000000 50] \<and>
   (\<exists>a. prepare_data example_config [init_reading, soil_reading 1736937045000000000 50] = Inr a \<and>
       map garden_id (expanded_df a) = [''Z1'', ''Z2''] \<and>
       map vegetable_type (expanded_df a) = [''tomato'', ''lettuce''] \<and>
       map location (expanded_df a) = [''North'', ''South''])"
proof -
  let ?rows = "[init_reading, soil_reading 1736937045000000000 50]"
  have zk: "zones_known example_config ?rows"
    by (simp add: zones_known_def init_reading_def soil_reading_def example_config_def)
  have sm:
    "map garden_id (concat (map (zone_readings example_config) ?rows)) = [''Z1'', ''Z2'']"
    "map vegetable_type (concat (map (zone_readings example_config) ?rows))
       = [''tomato'', ''lettuce'']"
    "map location (concat (map (zone_readings example_config) ?rows)) = [''North'', ''South'']"
    unfolding example_zone_readings by (simp_all add: new_row_def example_config_def)
  note t = zone_expansion_per_reading [of example_config ?rows]
  from t [THEN conjunct1] zk have "\<exists>a. prepare_data example_config ?rows = Inr a" by (rule iffD1)
  then show ?thesis
  proof (elim exE)
    fix a
    assume a: "prepare_data example_config ?rows = Inr a"
    from t [THEN conjunct2, rule_format, OF a, THEN conjunct1]
    have e: "expanded_df a = concat (map (zone_readings example_config) ?rows)" .
    show ?thesis
    proof (intro exI conjI)
      show "zones_known example_config ?rows" by (rule zk)
      show "prepare_data example_config ?rows = Inr a" by (rule a)
      show "map garden_id (expanded_df a) = [''Z1'', ''Z2'']" unfolding e by (rule sm(1))
      show "map vegetable_type (expanded_df a) = [''tomato'', ''lettuce'']"
        unfolding e by (rule sm(2))
      show "map location (expanded_df a) = [''North'', ''South'']" unfolding e by (rule sm(3))
    qed
  qed
qed

text \<open>
  C5 as stated fails on a reading whose value is the \<^verbatim>\<open>'Init'\<close> marker: sensor 1001 is
  mapped to the one zone Z1, and the initialization reading of sensor 1001 is expanded
  to no row at all.
\<close>

theorem init_reading_not_expanded:
  "sensor_id init_reading = Some ''1001'' \<and>
   sensor_garden_mapping example_config ''1001'' = Some [''Z1''] \<and>
   map_sum id expanded_df (prepare_data example_config [init_reading]) = Inr []"
  by (simp add: init_reading_def example_config_def prepare_data_def add_columns_def)

text \<open>
  C10 (amended). For every reading whose value is not the \<^verbatim>\<open>'Init'\<close> marker and whose
  sensor is mapped to a list that holds a zone ID that is no key of \<^verbatim>\<open>gardens\<close>, zone
  expansion raises \<^verbatim>\<open>KeyError\<close> for a zone that \<^verbatim>\<open>gardens\<close> does not have, and the
  construction of the analyzer yields no analyzer.
\<close>

theorem dangling_zone_raises:
  assumes "r \<in> set rows" and "val r \<noteq> Str ''Init''" and "sensor_id r = Some s"
    and "sensor_garden_mapping cfg s = Some gids" and "gid \<in> set gids"
    and "gardens cfg gid = None"
  shows "\<exists>k. prepare_data cfg rows = Inl (KeyError k) \<and> gardens cfg k = None"
proof -
  let ?df2 = "filter (\<lambda>row. val row \<noteq> Str ''Init'') (map (add_columns cfg) rows)"
  from assms(1,2) have "add_columns cfg r \<in> set ?df2" by (auto simp: add_columns_def)
  moreover from assms(3,4) have "garden_ids (add_columns cfg r) = Some gids"
    by (simp add: add_columns_def series_map_def)
  ultimately obtain k where
    "expand_rows (gardens cfg) ?df2 [] = Inl (KeyError k)" "gardens cfg k = None"
    using expand_rows_KeyError [of "add_columns cfg r" ?df2 gids gid "gardens cfg" "[]"] assms(5,6)
    by blast
  then show ?thesis by (auto simp: prepare_data_def)
qed

theorem dangling_zone_raises_witness:
  "temp_reading \<in> set [init_reading, temp_reading] \<and> val temp_reading \<noteq> Str ''Init'' \<and>
   sensor_id temp_reading = Some ''1001'' \<and>
   sensor_garden_mapping dangling_config ''1001'' = Some [''Z9''] \<and>
   gardens dangling_config ''Z9'' = None \<and>
   (\<exists>k. prepare_data dangling_config [init_reading, temp_reading] = Inl (KeyError k) \<and>
        gardens dangling_config k = None)"
proof -
  have h: "temp_reading \<in> set [init_reading, temp_reading]" "val temp_reading \<noteq> Str ''Init''"
    "sensor_id temp_reading = Some ''1001''"
    "sensor_garden_mapping dangling_config ''1001'' = Some [''Z9'']"
    "''Z9'' \<in> set [''Z9'']" "gardens dangling_config ''Z9'' = None"
    by (simp_all add: temp_reading_def dangling_config_def example_config_def)
  from dangling_zone_raises [OF h] h show ?thesis by simp
qed

text \<open>
  C10 as stated fails on a reading whose value is the \<^verbatim>\<open>'Init'\<close> marker: its row is
  dropped before the expansion, so the unknown zone Z9 of its sensor is never looked up
  and the construction succeeds, with an empty expanded record set.
\<close>

theorem init_reading_dangling_zone_no_error:
  "sensor_id init_reading = Some ''1001'' \<and>
   sensor_garden_mapping dangling_config ''1001'' = Some [''Z9''] \<and>
   gardens dangling_config ''Z9'' = None \<and>
   map_sum id expanded_df (prepare_data dangling_config [init_reading]) = Inr []"
  by (simp add: init_reading_def dangling_config_def example_config_def prepare_data_def
        add_columns_def)

section \<open>Scoring\<close>

lemma score_kind_absent: "R k = None \<Longrightarrow> score_kind R D k = Inr None"
  by (simp add: score_kind_def)

lemma score_kind_no_data:
  "R k = Some rng \<Longrightarrow> kind_rows D k = [] \<Longrightarrow> score_kind R D k = Inr (Some (None, no_data))"
  by (simp add: score_kind_def kind_rows_def)

lemma score_kind_TypeError:
  "R k = Some rng \<Longrightarrow> \<exists>z\<in>set (kind_rows D k). \<not> is_num (val z) \<Longrightarrow>
   score_kind R D k = Inl TypeError"
  by (auto simp: score_kind_def kind_rows_def Let_def list_all_iff filter_empty_conv)

lemma score_kind_scored:
  "R k = Some rng \<Longrightarrow> kind_rows D k \<noteq> [] \<Longrightarrow> \<forall>z\<in>set (kind_rows D k). is_num (val z) \<Longrightarrow>
   score_kind R D k =
     Inr (Some (Some (real (length (in_range_rows rng (kind_rows D k)))
                        / real (length (kind_rows D k)) * 100),
                scored_detail rng (kind_rows D k)))"
  by (auto simp: score_kind_def kind_rows_def Let_def list_all_iff scored_detail_def in_range_rows_def)

lemma score_kind_Inr_numeric:
  assumes "score_kind R D k = Inr x" and "R k = Some rng"
  shows "\<forall>z\<in>set (kind_rows D k). is_num (val z)"
proof (rule ccontr)
  assume "\<not> (\<forall>z\<in>set (kind_rows D k). is_num (val z))"
  then have "\<exists>z\<in>set (kind_rows D k). \<not> is_num (val z)" by blast
  from score_kind_TypeError [of R k rng D] assms this show False by simp
qed

lemma score_loop_result:
  "score_loop R D ks (sc0, dt0) = Inr (sc, dt) \<Longrightarrow>
   (\<forall>k\<in>set ks. \<exists>x. score_kind R D k = Inr x) \<and>
   (\<forall>k. map_of sc k =
      (if k \<in> set ks
       then (case score_entry R D k of None \<Rightarrow> map_of sc0 k | Some p \<Rightarrow> Some (fst p))
       else map_of sc0 k)) \<and>
   (\<forall>k. map_of dt k =
      (if k \<in> set ks
       then (case score_entry R D k of None \<Rightarrow> map_of dt0 k | Some p \<Rightarrow> Some (snd p))
       else map_of dt0 k))"
proof (induction ks arbitrary: sc0 dt0)
  case Nil
  then show ?case by simp
next
  case (Cons k ks)
  show ?case
  proof (cases "score_kind R D k")
    case (Inl e)
    with Cons.prems show ?thesis by simp
  next
    case (Inr x)
    show ?thesis
    proof (cases x)
      case None
      with Inr Cons.prems have "score_loop R D ks (sc0, dt0) = Inr (sc, dt)" by simp
      from Cons.IH [OF this] Inr None show ?thesis
        by (auto simp: score_entry_def)
    next
      case (Some p)
      obtain s d where p: "p = (s, d)" by (cases p)
      with Inr Some Cons.prems
      have "score_loop R D ks (AList.update k s sc0, AList.update k d dt0) = Inr (sc, dt)"
        by simp
      from Cons.IH [OF this] Inr Some p show ?thesis
        by (auto simp: score_entry_def update_conv' split: option.splits sum.splits)
    qed
  qed
qed

lemma score_loop_total:
  "\<forall>k\<in>set ks. \<exists>x. score_kind R D k = Inr x \<Longrightarrow> \<exists>r. score_loop R D ks acc = Inr r"
proof (induction ks arbitrary: acc)
  case Nil
  then show ?case by simp
next
  case (Cons k ks)
  obtain sc0 dt0 where acc: "acc = (sc0, dt0)" by (cases acc)
  from Cons.prems obtain x where x: "score_kind R D k = Inr x" by auto
  from Cons have IH: "\<And>acc. \<exists>r. score_loop R D ks acc = Inr r" by simp
  show ?case using acc x IH by (cases x) (auto split: prod.splits)
qed

lemma calculate_result:
  assumes "calculate_compliance_score a now gid h = Inr res"
    and "gardens a gid = Some g" and "vegetables a (g_vegetable_type g) = Some R"
  shows "expanded_df a \<noteq> []"
    and "\<forall>k\<in>set sensor_types. \<exists>x. score_kind R (recent_rows a now gid h) k = Inr x"
    and "\<forall>k\<in>set sensor_types. map_of (individual_scores res) k =
           map_option fst (score_entry R (recent_rows a now gid h) k)"
    and "\<forall>k\<in>set sensor_types. map_of (details res) k =
           map_option snd (score_entry R (recent_rows a now gid h) k)"
proof -
  from assms show ne: "expanded_df a \<noteq> []"
    by (auto simp: calculate_compliance_score_def Let_def split: if_splits)
  with assms obtain sc dt where
    loop: "score_loop R (recent_rows a now gid h) sensor_types ([], []) = Inr (sc, dt)"
    and res: "individual_scores res = sc" "details res = dt"
    by (auto simp: calculate_compliance_score_def Let_def recent_rows_def
             split: sum.splits if_splits)
  from score_loop_result [OF loop] res
  show "\<forall>k\<in>set sensor_types. \<exists>x. score_kind R (recent_rows a now gid h) k = Inr x"
    and "\<forall>k\<in>set sensor_types. map_of (individual_scores res) k =
           map_option fst (score_entry R (recent_rows a now gid h) k)"
    and "\<forall>k\<in>set sensor_types. map_of (details res) k =
           map_option snd (score_entry R (recent_rows a now gid h) k)"
    by (auto split: option.splits)
qed

lemma calculate_total:
  assumes "gardens a gid = Some g" and "vegetables a (g_vegetable_type g) = Some R"
    and "expanded_df a \<noteq> []"
    and "\<forall>k\<in>set sensor_types. \<exists>x. score_kind R (recent_rows a now gid h) k = Inr x"
    and "\<not> cutoff_overflows now h"
  shows "\<exists>res. calculate_compliance_score a now gid h = Inr res"
proof -
  from score_loop_total [OF assms(4), of "([], [])"] obtain r where
    "score_loop R (recent_rows a now gid h) sensor_types ([], []) = Inr r" by blast
  with assms(1,2,3,5) show ?thesis
    by (cases r) (simp add: calculate_compliance_score_def Let_def recent_rows_def)
qed

lemma kind_rows_recent:
  "kind_rows (recent_rows a now gid h) k =
   filter (\<lambda>z. garden_id z = gid \<and> now - timedelta_hours h \<le> timestamp z \<and> sensor_type z = Some k)
     (expanded_df a)"
  by (auto simp: kind_rows_def recent_rows_def intro: filter_cong)

lemma calculate_kind_entry:
  assumes "calculate_compliance_score a now gid h = Inr res"
    and "gardens a gid = Some g" and "vegetables a (g_vegetable_type g) = Some R"
    and "k \<in> set sensor_types" and "R k = Some rng"
    and "sel = filter (\<lambda>z. garden_id z = gid \<and> now - timedelta_hours h \<le> timestamp z
                            \<and> sensor_type z = Some k) (expanded_df a)"
  shows "map_of (individual_scores res) k =
           Some (if sel = [] then None
                 else Some (real (length (in_range_rows rng sel)) / real (length sel) * 100)) \<and>
         map_of (details res) k = Some (if sel = [] then no_data else scored_detail rng sel)"
proof -
  let ?D = "recent_rows a now gid h"
  have sel: "kind_rows ?D k = sel" by (simp add: kind_rows_recent assms(6))
  from calculate_result(2) [OF assms(1,2,3)] assms(4)
  obtain x where x: "score_kind R ?D k = Inr x" by blast
  have entry: "score_entry R ?D k =
      Some (if sel = [] then (None, no_data)
            else (Some (real (length (in_range_rows rng sel)) / real (length sel) * 100),
                  scored_detail rng sel))"
  proof (cases "sel = []")
    case True
    with score_kind_no_data [of R k rng ?D] assms(5) sel show ?thesis
      by (simp add: score_entry_def)
  next
    case False
    from score_kind_Inr_numeric [OF x assms(5)] have "\<forall>z\<in>set (kind_rows ?D k). is_num (val z)" .
    with score_kind_scored [of R k rng ?D] assms(5) sel False show ?thesis
      by (simp add: score_entry_def)
  qed
  from calculate_result(3,4) [OF assms(1,2,3)] assms(4) entry show ?thesis by simp
qed

text \<open>
  C1 (amended). For every zone and every look-back window of \<open>h\<close> hours, the compliance
  scoring operation selects exactly the rows of the expanded record set whose zone
  equals the requested zone and whose timestamp \<open>t\<close> satisfies \<open>now - h \<le> t\<close>, the bound
  inclusive; there is no upper bound. Whenever scoring returns a result, the entry of
  every kind of the crop's profile is computed from exactly the selected rows of that
  kind: no data when there is none, else their count, their in-range count, their mean
  and the score.
\<close>

theorem recent_data_selection:
  assumes "calculate_compliance_score a now gid h = Inr res"
    and "gardens a gid = Some g" and "vegetables a (g_vegetable_type g) = Some R"
    and "k \<in> set sensor_types" and "R k = Some rng"
    and "sel = filter (\<lambda>z. garden_id z = gid \<and> now - timedelta_hours h \<le> timestamp z
                            \<and> sensor_type z = Some k) (expanded_df a)"
  shows "map_of (individual_scores res) k =
           Some (if sel = [] then None
                 else Some (real (length (in_range_rows rng sel)) / real (length sel) * 100)) \<and>
         map_of (details res) k = Some (if sel = [] then no_data else scored_detail rng sel)"
  using assms by (rule calculate_kind_entry)

theorem recent_data_selection_witness:
  "\<not> isl (calculate_compliance_score example_analyzer noon ''Z1'' 2) \<and>
   map_of (individual_scores (projr (calculate_compliance_score example_analyzer noon ''Z1'' 2)))
     ''moisture'' = Some (Some 50) \<and>
   map_option readings_count
     (map_of (details (projr (calculate_compliance_score example_analyzer noon ''Z1'' 2)))
        ''moisture'') = Some (Some 2)"
proof -
  define res where "res = projr (calculate_compliance_score example_analyzer noon ''Z1'' 2)"
  define g where "g = the (gardens example_analyzer ''Z1'')"
  define R where "R = the (vegetables example_analyzer (g_vegetable_type g))"
  define rng where "rng = the (R ''moisture'')"
  define sel where "sel = filter (\<lambda>z. garden_id z = ''Z1'' \<and> noon - timedelta_hours 2 \<le> timestamp z
                            \<and> sensor_type z = Some ''moisture'') (expanded_df example_analyzer)"
  have r: "\<not> isl (calculate_compliance_score example_analyzer noon ''Z1'' 2)" by code_simp
  then have c: "calculate_compliance_score example_analyzer noon ''Z1'' 2 = Inr res"
    unfolding res_def by (cases "calculate_compliance_score example_analyzer noon ''Z1'' 2") simp_all
  have "gardens example_analyzer ''Z1'' \<noteq> None" by code_simp
  then have hg: "gardens example_analyzer ''Z1'' = Some g" unfolding g_def by simp
  have "vegetables example_analyzer (g_vegetable_type (the (gardens example_analyzer ''Z1''))) \<noteq> None"
    by code_simp
  then have hR: "vegetables example_analyzer (g_vegetable_type g) = Some R"
    unfolding R_def g_def by simp
  have "the (vegetables example_analyzer (g_vegetable_type (the (gardens example_analyzer ''Z1''))))
          ''moisture'' \<noteq> None"
    by code_simp
  then have hr: "R ''moisture'' = Some rng" unfolding rng_def R_def g_def by simp
  have hk: "''moisture'' \<in> set sensor_types" by (simp add: sensor_types_def)
  have v1: "(if sel = [] then None
             else Some (real (length (in_range_rows rng sel)) / real (length sel) * 100)) = Some 50"
    unfolding sel_def rng_def R_def g_def by code_simp
  have v2: "readings_count (if sel = [] then no_data else scored_detail rng sel) = Some 2"
    unfolding sel_def rng_def R_def g_def by code_simp
  from recent_data_selection [OF c hg hR hk hr sel_def] r v1 v2 show ?thesis
    unfolding res_def by simp
qed

text \<open>
  C1 as stated fails on its upper bound. With \<^verbatim>\<open>now\<close> at 12:00 and a window of two
  hours, the window of the claim ends at 12:00; the only reading of the log is of 13:00,
  after the end of the window, and the moisture score of zone Z1 is 100 with it, where
  the claim has the reading excluded and the kind without data.
\<close>

theorem later_reading_is_scored:
  "map_option (\<lambda>t. noon < t) (to_datetime_iso ''2025-01-15 13:00:00'') = Some True \<and>
   map_sum id individual_scores
     (score_of_log example_config
        [''[2025-01-15 13:00:00] INFO SoilSensor[id=2001]: moisture=50''] noon ''Z1'' 2)
     = Inr [(''temperature'', None), (''moisture'', Some 100)]"
  by code_simp

text \<open>
  The score on the record sets on which scoring returns. For a kind of the crop's
  profile with \<open>N \<ge> 1\<close> matching numeric readings of which \<open>K\<close> lie in the inclusive range:
  whenever scoring returns a result, the score of the kind is \<open>K / N * 100\<close>, over the
  reals; a value equal to the minimum or to the maximum counts as in range. Scoring does
  return a result when the cutoff does not overflow and every reading of a scored kind
  in the window is numeric; when one is not, it raises (\<open>numeric_readings_not_scored\<close> below).
\<close>

lemma compliance_score_ratio:
  assumes "gardens a gid = Some g" and "vegetables a (g_vegetable_type g) = Some R"
    and "k \<in> set sensor_types" and "R k = Some rng"
    and "sel = filter (\<lambda>z. garden_id z = gid \<and> now - timedelta_hours h \<le> timestamp z
                            \<and> sensor_type z = Some k \<and> is_num (val z)) (expanded_df a)"
    and "N = length sel" and "N \<ge> 1"
    and "K = length (filter (\<lambda>z. range_min rng \<le> num_of (val z) \<and> num_of (val z) \<le> range_max rng) sel)"
  shows "(\<not> cutoff_overflows now h \<longrightarrow>
          (\<forall>z\<in>set (recent_rows a now gid h). \<forall>k'\<in>set sensor_types.
            sensor_type z = Some k' \<longrightarrow> R k' \<noteq> None \<longrightarrow> is_num (val z))
          \<longrightarrow> (\<exists>res. calculate_compliance_score a now gid h = Inr res)) \<and>
         (\<forall>res. calculate_compliance_score a now gid h = Inr res \<longrightarrow>
            map_of (individual_scores res) k = Some (Some (100 * real K / real N)))"
proof (intro conjI impI allI)
  let ?D = "recent_rows a now gid h"
  assume ov: "\<not> cutoff_overflows now h"
  assume num: "\<forall>z\<in>set ?D. \<forall>k'\<in>set sensor_types.
            sensor_type z = Some k' \<longrightarrow> R k' \<noteq> None \<longrightarrow> is_num (val z)"
  from assms(5,6,7) have ne: "expanded_df a \<noteq> []" by (cases "expanded_df a") auto
  have "\<forall>k'\<in>set sensor_types. \<exists>x. score_kind R ?D k' = Inr x"
  proof
    fix k' assume k': "k' \<in> set sensor_types"
    show "\<exists>x. score_kind R ?D k' = Inr x"
    proof (cases "R k'")
      case None
      then show ?thesis by (simp add: score_kind_absent)
    next
      case (Some rng')
      show ?thesis
      proof (cases "kind_rows ?D k' = []")
        case True
        with Some show ?thesis by (simp add: score_kind_no_data)
      next
        case False
        from num k' Some have "\<forall>z\<in>set (kind_rows ?D k'). is_num (val z)"
          by (auto simp: kind_rows_def)
        with score_kind_scored [of R k' rng' ?D] Some False show ?thesis by simp
      qed
    qed
  qed
  from calculate_total [OF assms(1,2) ne this ov]
  show "\<exists>res. calculate_compliance_score a now gid h = Inr res" .
next
  fix res
  assume res: "calculate_compliance_score a now gid h = Inr res"
  let ?D = "recent_rows a now gid h"
  let ?all = "filter (\<lambda>z. garden_id z = gid \<and> now - timedelta_hours h \<le> timestamp z
                            \<and> sensor_type z = Some k) (expanded_df a)"
  from calculate_result(2) [OF res assms(1,2)] assms(3)
  obtain x where x: "score_kind R ?D k = Inr x" by blast
  from score_kind_Inr_numeric [OF x assms(4)] have "\<forall>z\<in>set ?all. is_num (val z)"
    by (simp add: kind_rows_recent)
  then have "sel = ?all" unfolding assms(5) by (auto intro: filter_cong)
  from calculate_kind_entry [OF res assms(1,2,3,4) this] assms(6,7,8)
  show "map_of (individual_scores res) k = Some (Some (100 * real K / real N))"
    by (auto simp: in_range_rows_def)
qed

lemma compliance_score_ratio_example:
  "(\<exists>res. calculate_compliance_score boundary_analyzer noon ''Z1'' 2 = Inr res) \<and>
   map_of (individual_scores (projr (calculate_compliance_score boundary_analyzer noon ''Z1'' 2)))
     ''moisture'' = Some (Some (100 * real 2 / real 4))"
proof -
  define res where "res = projr (calculate_compliance_score boundary_analyzer noon ''Z1'' 2)"
  define g where "g = the (gardens boundary_analyzer ''Z1'')"
  define R where "R = the (vegetables boundary_analyzer (g_vegetable_type g))"
  define rng where "rng = the (R ''moisture'')"
  define sel where "sel = filter (\<lambda>z. garden_id z = ''Z1'' \<and> noon - timedelta_hours 2 \<le> timestamp z
        \<and> sensor_type z = Some ''moisture'' \<and> is_num (val z)) (expanded_df boundary_analyzer)"
  define N where "N = length sel"
  define K where "K = length (filter (\<lambda>z. range_min rng \<le> num_of (val z)
                                           \<and> num_of (val z) \<le> range_max rng) sel)"
  have r: "\<not> isl (calculate_compliance_score boundary_analyzer noon ''Z1'' 2)" by code_simp
  then have c: "calculate_compliance_score boundary_analyzer noon ''Z1'' 2 = Inr res"
    unfolding res_def by (cases "calculate_compliance_score boundary_analyzer noon ''Z1'' 2") simp_all
  have "gardens boundary_analyzer ''Z1'' \<noteq> None" by code_simp
  then have hg: "gardens boundary_analyzer ''Z1'' = Some g" unfolding g_def by simp
  have "vegetables boundary_analyzer (g_vegetable_type (the (gardens boundary_analyzer ''Z1''))) \<noteq> None"
    by code_simp
  then have hR: "vegetables boundary_analyzer (g_vegetable_type g) = Some R"
    unfolding R_def g_def by simp
  have "the (vegetables boundary_analyzer (g_vegetable_type (the (gardens boundary_analyzer ''Z1''))))
          ''moisture'' \<noteq> None"
    by code_simp
  then have hr: "R ''moisture'' = Some rng" unfolding rng_def R_def g_def by simp
  have hk: "''moisture'' \<in> set sensor_types" by (simp add: sensor_types_def)
  have n: "N = 4" unfolding N_def sel_def by code_simp
  have k: "K = 2" unfolding K_def sel_def rng_def R_def g_def by code_simp
  from n have n1: "N \<ge> 1" by simp
  from compliance_score_ratio [OF hg hR hk hr sel_def N_def n1 K_def, THEN conjunct2,
      rule_format, OF c]
  have sc: "map_of (individual_scores res) ''moisture'' = Some (Some (100 * real K / real N))" .
  have num: "\<forall>z\<in>set (recent_rows boundary_analyzer noon ''Z1'' 2). \<forall>k'\<in>set sensor_types.
               sensor_type z = Some k' \<longrightarrow> R k' \<noteq> None \<longrightarrow> is_num (val z)"
    unfolding R_def g_def by code_simp
  have ov: "\<not> cutoff_overflows noon 2" by code_simp
  from compliance_score_ratio [OF hg hR hk hr sel_def N_def n1 K_def, THEN conjunct1,
      THEN mp, OF ov] num
  have ex: "\<exists>res. calculate_compliance_score boundary_analyzer noon ''Z1'' 2 = Inr res"
    by (rule mp)
  from sc n k have "map_of (individual_scores res) ''moisture'' = Some (Some (100 * real 2 / real 4))"
    by simp
  with ex show ?thesis unfolding res_def by (intro conjI)
qed

section \<open>The patterns\<close>

lemma group_Cons: "group ((j, t) # c) i = (if i = j then Some t else group c i)"
  by (simp add: group_def)

lemma matches_keeps_groups:
  "(s', c') \<in> set (matches r (s, c)) \<Longrightarrow> group c i \<noteq> None \<Longrightarrow> group c' i \<noteq> None"
  "(s', c') \<in> set (matches_seq rs (s, c)) \<Longrightarrow> group c i \<noteq> None \<Longrightarrow> group c' i \<noteq> None"
proof (induction r "(s, c)" and rs "(s, c)" arbitrary: s c s' c' and s c s' c'
       rule: matches_matches_seq.induct)
  case (1 l s c)
  then show ?case by (auto split: if_splits)
next
  case (2 a s c)
  then show ?case by (auto split: if_splits list.splits)
next
  case (3 a s c)
  then show ?case by auto
next
  case (4 n a s c)
  then show ?case by (auto split: if_splits)
next
  case (5 r s c)
  then show ?case by auto
next
  case (6 j r s c)
  then show ?case by (auto simp: group_Cons)
next
  case (7 rs s c)
  then show ?case by auto
next
  case (8 s c)
  then show ?case by auto
next
  case (9 r rs s c)
  from "9.prems"(1) obtain s1 c1 where
    m1: "(s1, c1) \<in> set (matches r (s, c))" and m2: "(s', c') \<in> set (matches_seq rs (s1, c1))"
    by auto
  from "9.hyps"(1) [OF m1 "9.prems"(2)] have "group c1 i \<noteq> None" .
  from "9.hyps"(2) [OF m1 m2 this] show ?case .
qed

lemma matches_sets_group:
  "(s', c') \<in> set (matches r (s, c)) \<Longrightarrow> sets_group i r \<Longrightarrow> group c' i \<noteq> None"
  "(s', c') \<in> set (matches_seq rs (s, c)) \<Longrightarrow> sets_group_seq i rs \<Longrightarrow> group c' i \<noteq> None"
proof (induction r "(s, c)" and rs "(s, c)" arbitrary: s c s' c' and s c s' c'
       rule: matches_matches_seq.induct)
  case (6 j r s c)
  then show ?case by (auto simp: group_Cons)
next
  case (9 r rs s c)
  from "9.prems"(1) obtain s1 c1 where
    m1: "(s1, c1) \<in> set (matches r (s, c))" and m2: "(s', c') \<in> set (matches_seq rs (s1, c1))"
    by auto
  show ?case
  proof (cases "sets_group i r")
    case True
    from "9.hyps"(1) [OF m1 True] have "group c1 i \<noteq> None" .
    from matches_keeps_groups(2) [OF m2 this] show ?thesis .
  next
    case False
    with "9.prems"(2) have "sets_group_seq i rs" by simp
    from "9.hyps"(2) [OF m1 m2 this] show ?thesis .
  qed
qed auto

lemma re_match_sets_group:
  assumes "re_match r line = Some g" and "sets_group i r"
  shows "group g i \<noteq> None"
proof -
  from assms(1) obtain s ms where "matches r (line, []) = (s, g) # ms"
    by (auto simp: re_match_def split: list.splits)
  then have "(s, g) \<in> set (matches r (line, []))" by simp
  from matches_sets_group(1) [OF this assms(2)] show ?thesis .
qed

lemma init_pattern_groups:
  "re_match init_pattern line = Some g \<Longrightarrow> group g 1 \<noteq> None \<and> group g 2 \<noteq> None \<and> group g 3 \<noteq> None"
  using re_match_sets_group [of init_pattern line g]
  by (simp add: init_pattern_def level_type_def id_group_def)

lemma data_pattern_groups:
  "re_match data_pattern line = Some g \<Longrightarrow>
   group g 1 \<noteq> None \<and> group g 2 \<noteq> None \<and> group g 3 \<noteq> None \<and> group g 5 \<noteq> None"
  using re_match_sets_group [of data_pattern line g]
  by (simp add: data_pattern_def level_type_def id_group_def)

lemma pump_pattern_groups:
  "re_match pump_pattern line = Some g \<Longrightarrow>
   group g 1 \<noteq> None \<and> group g 2 \<noteq> None \<and> group g 3 \<noteq> None \<and> group g 5 \<noteq> None"
  using re_match_sets_group [of pump_pattern line g]
  by (simp add: pump_pattern_def level_type_def id_group_def)





















section \<open>Ingestion\<close>

lemma import_lines_Cons:
  "import_lines td (raw # rest) imp =
     import_lines td rest
       (case parse_line td (strip raw) of
          Parsed r \<Rightarrow> imp\<lparr>database := database imp @ [r]\<rparr>
        | No_match \<Rightarrow> imp
        | Raised \<Rightarrow> imp\<lparr>logged := logged imp @ [strip raw]\<rparr>)"
  by (cases "parse_line td (strip raw)") simp_all

lemma import_lines_append:
  "import_lines td (xs @ ys) imp = import_lines td ys (import_lines td xs imp)"
proof (induction xs arbitrary: imp)
  case Nil
  show ?case by simp
next
  case (Cons x xs)
  show ?case unfolding append_Cons import_lines_Cons Cons.IH ..
qed

lemma import_lines_database:
  "database (import_lines td lines imp) = database imp @ List.map_filter (parsed_reading td) lines"
proof (induction lines arbitrary: imp)
  case Nil
  show ?case by (simp add: List.map_filter_simps)
next
  case (Cons raw rest)
  show ?case unfolding import_lines_Cons Cons.IH
    by (cases "parse_line td (strip raw)")
       (simp_all add: parsed_reading_def [of td raw] List.map_filter_simps)
qed

lemma import_lines_no_match:
  "parse_line td (strip raw) = No_match \<Longrightarrow>
   import_lines td (xs @ raw # ys) imp = import_lines td (xs @ ys) imp"
  unfolding import_lines_append import_lines_Cons by simp

text \<open>
  C3 (amended). For every finite sequence of lines, ingestion yields the readings of the
  lines that parse, in the order of the lines, and nothing else about the lines that no
  pattern matches: no skip count is kept. A line that matches none of the three patterns
  contributes no reading and leaves the result of the batch as it is without the line,
  so the readings of the other lines are all kept.
\<close>

theorem import_data_skips_unparsed:
  "database (import_data to_datetime lines) = List.map_filter (parsed_reading to_datetime) lines \<and>
   (parse_line to_datetime (strip raw) = No_match \<longrightarrow>
      import_data to_datetime (xs @ raw # ys) = import_data to_datetime (xs @ ys))"
  by (simp add: import_data_def import_lines_database import_lines_no_match)

theorem import_data_skips_unparsed_witness:
  "parse_line to_datetime_iso (strip junk_line) = No_match \<and>
   import_data to_datetime_iso ([temp_line] @ junk_line # [soil_line]) =
     import_data to_datetime_iso ([temp_line] @ [soil_line]) \<and>
   database (import_data to_datetime_iso ([temp_line] @ junk_line # [soil_line])) =
     [temp_reading, soil_reading 1736937045000000000 50]"
proof -
  have n: "parse_line to_datetime_iso (strip junk_line) = No_match" by code_simp
  have m: "List.map_filter (parsed_reading to_datetime_iso) ([temp_line] @ junk_line # [soil_line])
             = [temp_reading, soil_reading 1736937045000000000 50]"
    by code_simp
  from import_data_skips_unparsed
         [of to_datetime_iso "[temp_line] @ junk_line # [soil_line]" junk_line "[temp_line]"
             "[soil_line]"]
  have "database (import_data to_datetime_iso ([temp_line] @ junk_line # [soil_line])) =
          List.map_filter (parsed_reading to_datetime_iso) ([temp_line] @ junk_line # [soil_line])"
    and "parse_line to_datetime_iso (strip junk_line) = No_match \<longrightarrow>
      import_data to_datetime_iso ([temp_line] @ junk_line # [soil_line]) =
        import_data to_datetime_iso ([temp_line] @ [soil_line])"
    by (rule conjunct1, rule conjunct2)
  with n m show ?thesis by simp
qed

text \<open>
  C3 as stated fails on the skip count. The result of ingesting a batch with one line
  that no pattern matches is the result of ingesting the empty batch: no count in it can
  be one more than the other.
\<close>

theorem unparsed_line_leaves_no_count:
  "parse_line to_datetime_iso (strip junk_line) = No_match \<and>
   import_data to_datetime_iso [junk_line] = import_data to_datetime_iso []"
  by code_simp

text \<open>The last step of \<^verbatim>\<open>calculate_compliance_score\<close>: whenever it returns, the
  overall score is the mean of the scores that are not \<^verbatim>\<open>None\<close>, and 0 when there is
  none.\<close>

lemma overall_score_mean:
  assumes "calculate_compliance_score a now gid h = Inr res"
  shows "overall_score res =
           (if List.map_filter snd (individual_scores res) = [] then 0
            else mean (List.map_filter snd (individual_scores res)))"
  using assms
  by (auto simp: calculate_compliance_score_def Let_def
           split: option.splits if_splits sum.splits prod.splits)

text \<open>
  C2: the code at the failing input. The three readings of the log are all kept by the
  importer: the \<^verbatim>\<open>'Init'\<close> marker, 23.5, and the text \<^verbatim>\<open>temperature=-3.5\<close>. The analyzer
  drops the \<^verbatim>\<open>'Init'\<close> row only; the text row of the temperature sensor stays among the
  temperature rows of zone Z1, and the comparison of its value with the range raises
  \<^verbatim>\<open>TypeError\<close>: scoring returns no result, where the claim has the text row left out
  and the temperature score computed from 23.5 alone.
\<close>

theorem free_text_reading_raises:
  "map val (database (import_data to_datetime_iso frost_log)) =
     [Str ''Init'', Num 23.5, Str ''temperature=-3.5''] \<and>
   score_of_log example_config frost_log noon ''Z1'' default_window = Inl TypeError"
  by code_simp

text \<open>
  C6: the code at the failing input. Zone Z2 grows lettuce, whose profile has a range
  for light, 200 to 800; the one light reading is 100, so the kind is scored and its mean
  is below the minimum. No line is produced for light: the branch for a mean below the
  minimum has cases for moisture, humidity and temperature only, and the list that is
  left empty is then replaced by the line that all parameters are within their optimal
  ranges.
\<close>

theorem low_light_gets_no_action:
  "map_sum id (map (\<lambda>(k, d). (k, avg_value d, optimal_min d)) \<circ> details)
     (score_of_log example_config dim_log noon ''Z2'' default_window)
     = Inr [(''light'', Some 100, Some 200)] \<and>
   recommendations_of_log example_config dim_log noon ''Z2'' = Inr [All_parameters_optimal]"
  by code_simp

text \<open>
  C7: the code at the failing input. With an empty log no row is expanded, the expanded
  DataFrame is built from an empty list and has no column, and the scoring of zone Z1
  raises \<^verbatim>\<open>KeyError\<close> on the column \<^verbatim>\<open>garden_id\<close>; no kind has a score, and the overall
  score is not 0 but an error.
\<close>

theorem empty_log_overall_score_raises:
  "\<not> isl (prepare_data example_config (database (import_data to_datetime_iso []))) \<and>
   score_of_log example_config [] noon ''Z1'' default_window = Inl (KeyError ''garden_id'')"
  by code_simp

text \<open>
  C8: the code at the failing inputs. The log of the spec's example holds one
  initialization line: zone Z1 has no numeric reading of any kind, and scoring raises
  \<^verbatim>\<open>KeyError\<close> instead of reporting the kinds as without data. With the one line of a
  temperature below zero, read as text, the temperature kind of zone Z1 has no numeric
  reading either, and scoring raises \<^verbatim>\<open>TypeError\<close>.
\<close>

theorem no_numeric_reading_raises:
  "score_of_log example_config init_log noon ''Z1'' default_window
     = Inl (KeyError ''garden_id'') \<and>
   score_of_log example_config
     [''[2025-01-15 10:31:00] INFO TempSensor[id=1001]: temperature=-3.5'']
     noon ''Z1'' default_window = Inl TypeError"
  by code_simp

text \<open>
  C4: the code at the failing input. In the log with the temperature below zero, zone
  Z1 has one numeric temperature reading in the window, 23.5, and it lies in the range
  18 to 27: the claim's \<open>N\<close> is 1 and its \<open>K\<close> is 1, and the claim has the temperature score
  equal to 100. The text row of the same sensor is among the temperature rows as well,
  and scoring raises \<^verbatim>\<open>TypeError\<close>: there is no score.
\<close>

theorem numeric_readings_not_scored:
  "length (filter (\<lambda>z. garden_id z = ''Z1'' \<and>
                        noon - timedelta_hours default_window \<le> timestamp z \<and>
                        sensor_type z = Some ''temperature'' \<and> is_num (val z))
             (expanded_df frost_analyzer)) = 1 \<and>
   length (filter (\<lambda>z. garden_id z = ''Z1'' \<and>
                        noon - timedelta_hours default_window \<le> timestamp z \<and>
                        sensor_type z = Some ''temperature'' \<and> is_num (val z) \<and>
                        18 \<le> num_of (val z) \<and> num_of (val z) \<le> 27)
             (expanded_df frost_analyzer)) = 1 \<and>
   calculate_compliance_score frost_analyzer noon ''Z1'' default_window = Inl TypeError"
  by code_simp

end
